theory Spec2Isabelle
  imports Complex_Main "HOL-Library.Sublist"
begin

section \<open>The Hikvision unbrick TFTP server\<close>

text \<open>
  A shallow embedding of \<^verbatim>\<open>src/hikvision_unbrick.py\<close>. Python \<^verbatim>\<open>bytes\<close> are lists of
  \<^typ>\<open>char\<close> (one \<^typ>\<open>char\<close> is one byte), Python integers are \<^typ>\<open>int\<close>, the attributes of
  \<^verbatim>\<open>TFTPServer\<close> are the fields of a record, and a method is a function from the server
  to a result and the updated server. An exception is the \<open>Inl\<close> of the result; the
  server returned beside it holds the assignments made before the raise, as in Python.
  A socket is modelled by the list of datagrams sent through it so far. Console output
  (\<^verbatim>\<open>print\<close>) is left out of the handlers; the arithmetic done for it is kept where it
  can raise.
\<close>

subsection \<open>Bytes, addresses, exceptions\<close>

type_synonym bytes = "char list"

type_synonym addr = "string \<times> nat"

type_synonym datagram = "bytes \<times> addr"

datatype error =
    TFTPError
  | ValueError
  | IndexError
  | StructError
  | ZeroDivisionError
  | OSError

subsection \<open>Constants\<close>

text \<open>\<^verbatim>\<open>struct.pack('20s', b'SWKH')\<close>: the four letters, padded with null bytes to 20.\<close>

definition HANDSHAKE_BYTES :: bytes where
  "HANDSHAKE_BYTES = ''SWKH'' @ replicate 16 (CHR 0x00)"

definition DEFAULT_BLOCK_SIZE :: int where
  "DEFAULT_BLOCK_SIZE = 512"

definition OP_RRQ :: int where "OP_RRQ = 1"
definition OP_DATA :: int where "OP_DATA = 3"
definition OP_ACK :: int where "OP_ACK = 4"
definition OP_OACK :: int where "OP_OACK = 6"

text \<open>\<^verbatim>\<open>struct.pack('>H', n)\<close>: two bytes, big endian; \<^verbatim>\<open>struct.error\<close> outside \<open>0..65535\<close>.\<close>

definition pack_H :: "int \<Rightarrow> error + bytes" where
  "pack_H n =
     (if 0 \<le> n \<and> n \<le> 65535
      then Inr [char_of (n div 256), char_of (n mod 256)]
      else Inl StructError)"

text \<open>\<^verbatim>\<open>struct.pack('>HH', a, b)\<close>.\<close>

definition pack_HH :: "int \<Rightarrow> int \<Rightarrow> error + bytes" where
  "pack_HH a b =
     (case pack_H a of
        Inl e \<Rightarrow> Inl e
      | Inr x \<Rightarrow> (case pack_H b of Inl e \<Rightarrow> Inl e | Inr y \<Rightarrow> Inr (x @ y)))"

text \<open>\<^verbatim>\<open>struct.unpack('>H', b)[0]\<close>: \<^verbatim>\<open>struct.error\<close> unless \<open>b\<close> has exactly two bytes.\<close>

definition unpack_H :: "bytes \<Rightarrow> error + int" where
  "unpack_H b =
     (case b of
        [hi, lo] \<Rightarrow> Inr (256 * of_char hi + of_char lo)
      | _ \<Rightarrow> Inl StructError)"

text \<open>\<^verbatim>\<open>struct.pack('>H', OP_ACK)\<close> (lemma \<open>ACK_PREFIX_pack\<close>).\<close>

definition ACK_PREFIX :: bytes where
  "ACK_PREFIX = [CHR 0x00, CHR 0x04]"

text \<open>The mode marker \<^verbatim>\<open>b'\x00octet\x00'\<close> of \<^verbatim>\<open>__init__\<close> and \<^verbatim>\<open>_parse_options\<close>.\<close>

definition octet_marker :: bytes where
  "octet_marker = CHR 0x00 # ''octet'' @ [CHR 0x00]"

subsection \<open>Python sequence operations\<close>

text \<open>\<^verbatim>\<open>xs[i]\<close>: a negative index counts from the end, \<^verbatim>\<open>IndexError\<close> out of range.\<close>

definition py_index :: "'a list \<Rightarrow> int \<Rightarrow> error + 'a" where
  "py_index xs i =
     (if 0 \<le> i \<and> i < int (length xs) then Inr (xs ! nat i)
      else if i < 0 \<and> - int (length xs) \<le> i then Inr (xs ! nat (i + int (length xs)))
      else Inl IndexError)"

text \<open>\<^verbatim>\<open>xs[start:stop]\<close>: negative bounds count from the end, both are clamped, never raises.\<close>

definition py_slice :: "'a list \<Rightarrow> int \<Rightarrow> int \<Rightarrow> 'a list" where
  "py_slice xs start stop =
     (let n = int (length xs);
          lo = (if start < 0 then max 0 (start + n) else min start n);
          hi = (if stop < 0 then max 0 (stop + n) else min stop n)
      in take (nat (hi - lo)) (drop (nat lo) xs))"

text \<open>\<^verbatim>\<open>pkt.startswith(pre)\<close>.\<close>

definition startswith :: "bytes \<Rightarrow> bytes \<Rightarrow> bool" where
  "startswith pkt pre = prefix pre pkt"

text \<open>\<^verbatim>\<open>xs.find(sep)\<close> for a non-empty \<open>sep\<close>: the offset of its first occurrence.\<close>

fun bytes_find :: "bytes \<Rightarrow> bytes \<Rightarrow> nat option" where
  "bytes_find sep [] = None"
| "bytes_find sep (x # xs) =
     (if prefix sep (x # xs) then Some 0 else map_option Suc (bytes_find sep xs))"

text \<open>\<^verbatim>\<open>xs.split(sep, 1)\<close> for a non-empty \<open>sep\<close>: one cut at the first occurrence, or
  the whole of \<open>xs\<close> as the only element.\<close>

definition split_once :: "bytes \<Rightarrow> bytes \<Rightarrow> bytes list" where
  "split_once sep xs =
     (case bytes_find sep xs of
        None \<Rightarrow> [xs]
      | Some i \<Rightarrow> [take i xs, drop (i + length sep) xs])"

text \<open>\<^verbatim>\<open>xs.split(b)\<close> for a one-byte separator: a cut at every occurrence.\<close>

fun split_byte :: "char \<Rightarrow> bytes \<Rightarrow> bytes list" where
  "split_byte sep [] = [[]]"
| "split_byte sep (x # xs) =
     (if x = sep then [] # split_byte sep xs
      else (case split_byte sep xs of
              p # ps \<Rightarrow> (x # p) # ps
            | [] \<Rightarrow> [[x]]))"

text \<open>\<^verbatim>\<open>str(n).encode()\<close>: the decimal digits of \<open>n\<close> in ASCII.\<close>

fun decimal :: "nat \<Rightarrow> string" where
  "decimal n =
     (if n < 10 then [char_of (48 + n)]
      else decimal (n div 10) @ [char_of (48 + n mod 10)])"

declare decimal.simps [simp del]

definition str_int :: "int \<Rightarrow> string" where
  "str_int n = (if n < 0 then CHR ''-'' # decimal (nat (- n)) else decimal (nat n))"

text \<open>\<^verbatim>\<open>sock.recvfrom(bufsize)\<close> on a UDP socket, for the datagram \<open>dgram\<close> that arrived:
  the first \<open>bufsize\<close> bytes; the rest of a longer datagram is discarded (the POSIX
  behaviour of a datagram socket).\<close>

definition recvfrom :: "nat \<Rightarrow> bytes \<Rightarrow> bytes" where
  "recvfrom bufsize dgram = take bufsize dgram"

subsection \<open>The Python runtime\<close>

text \<open>
  Three built-ins that \<^verbatim>\<open>_parse_options\<close> and \<^verbatim>\<open>_handle_tftp\<close> call are not code of this
  program and depend on Unicode tables: \<^verbatim>\<open>bytes.decode(errors='ignore')\<close>, \<^verbatim>\<open>str.lower()\<close>
  and \<^verbatim>\<open>int(str)\<close>. The model takes them as a parameter, so every theorem below holds
  whatever they compute. \<open>int_of_str\<close> gives \<open>None\<close> where \<^verbatim>\<open>int\<close> raises \<^verbatim>\<open>ValueError\<close>.
  A Python \<^verbatim>\<open>str\<close> is a \<^typ>\<open>string\<close>; ASCII text is written as it is.
\<close>

record runtime =
  bytes_decode :: "bytes \<Rightarrow> string"
  str_lower :: "string \<Rightarrow> string"
  int_of_str :: "string \<Rightarrow> int option"

text \<open>
  A runtime to evaluate the model with. On ASCII input it computes what CPython
  computes: decoding drops every byte that is not ASCII, lowering maps \<open>A\<close>--\<open>Z\<close>,
  and the integer syntax is optional white space, an optional sign, and decimal digits
  with single underscores between them.
\<close>

definition ascii_decode :: "bytes \<Rightarrow> string" where
  "ascii_decode b = filter (\<lambda>c. (of_char c :: nat) < 128) b"

definition ascii_lower_char :: "char \<Rightarrow> char" where
  "ascii_lower_char c =
     (let n = (of_char c :: nat) in if 65 \<le> n \<and> n \<le> 90 then char_of (n + 32) else c)"

definition ascii_lower :: "string \<Rightarrow> string" where
  "ascii_lower t = map ascii_lower_char t"

definition is_space :: "char \<Rightarrow> bool" where
  "is_space c =
     (let n = (of_char c :: nat) in (9 \<le> n \<and> n \<le> 13) \<or> (28 \<le> n \<and> n \<le> 32))"

definition is_digit :: "char \<Rightarrow> bool" where
  "is_digit c = (let n = (of_char c :: nat) in 48 \<le> n \<and> n \<le> 57)"

definition digit_val :: "char \<Rightarrow> nat" where
  "digit_val c = of_char c - 48"

definition strip :: "string \<Rightarrow> string" where
  "strip t = rev (dropWhile is_space (rev (dropWhile is_space t)))"

fun parse_digits :: "nat \<Rightarrow> string \<Rightarrow> nat option" where
  "parse_digits acc [] = Some acc"
| "parse_digits acc [c] =
     (if is_digit c then Some (10 * acc + digit_val c) else None)"
| "parse_digits acc (c # d # ds) =
     (if is_digit c then parse_digits (10 * acc + digit_val c) (d # ds)
      else if c = CHR ''_'' \<and> is_digit d then parse_digits (10 * acc + digit_val d) ds
      else None)"

definition ascii_int :: "string \<Rightarrow> int option" where
  "ascii_int t =
     (let u = strip t;
          neg = (case u of c # _ \<Rightarrow> c = CHR ''-'' | [] \<Rightarrow> False);
          ds = (case u of c # r \<Rightarrow> if c = CHR ''-'' \<or> c = CHR ''+'' then r else u | [] \<Rightarrow> [])
      in case ds of
           [] \<Rightarrow> None
         | d # r \<Rightarrow>
             if is_digit d
             then map_option (\<lambda>n. if neg then - int n else int n) (parse_digits (digit_val d) r)
             else None)"

definition ascii_runtime :: runtime where
  "ascii_runtime =
     \<lparr>bytes_decode = ascii_decode, str_lower = ascii_lower, int_of_str = ascii_int\<rparr>"

subsection \<open>The server object\<close>

text \<open>
  The attributes of \<^verbatim>\<open>TFTPServer\<close>. Each socket attribute holds the datagrams sent
  through that socket so far, oldest first.
\<close>

record server =
  data :: bytes
  filename_bytes :: bytes
  rrq_prefix :: bytes
  block_size :: int
  total_blocks :: int
  handshake_sock :: "datagram list"
  tftp_sock :: "datagram list"

text \<open>\<^verbatim>\<open>_bind\<close>: the outcome of \<^verbatim>\<open>s.bind(addr)\<close> is an input of the model.\<close>

datatype bind_result = Bound | EADDRNOTAVAIL | EADDRINUSE | EACCES | OtherErrno

definition bind_sock :: "bind_result \<Rightarrow> error + unit" where
  "bind_sock r =
     (case r of
        Bound \<Rightarrow> Inr ()
      | EADDRNOTAVAIL \<Rightarrow> Inl TFTPError
      | EADDRINUSE \<Rightarrow> Inl TFTPError
      | EACCES \<Rightarrow> Inl TFTPError
      | OtherErrno \<Rightarrow> Inl OSError)"

text \<open>\<^verbatim>\<open>_set_block_size\<close>: Python's \<^verbatim>\<open>//\<close> is floor division, which is \<open>div\<close> on \<^typ>\<open>int\<close>.\<close>

definition set_block_size :: "int \<Rightarrow> server \<Rightarrow> server" where
  "set_block_size sz s =
     s\<lparr>block_size := sz,
       total_blocks := (int (length (data s)) + sz - 1) div sz\<rparr>"

text \<open>\<^verbatim>\<open>_check_limits\<close>.\<close>

definition check_limits :: "server \<Rightarrow> error + unit" where
  "check_limits s = (if total_blocks s > 65535 then Inl TFTPError else Inr ())"

text \<open>\<^verbatim>\<open>__init__\<close>. The file name is given by its UTF-8 encoding. The two attributes
  that \<^verbatim>\<open>_set_block_size\<close> assigns do not exist before its call.\<close>

definition init :: "bind_result \<Rightarrow> bind_result \<Rightarrow> bytes \<Rightarrow> bytes \<Rightarrow> error + server" where
  "init handshake_bind tftp_bind filename fw =
     (case pack_H OP_RRQ of
        Inl e \<Rightarrow> Inl e
      | Inr opcode \<Rightarrow>
          (case bind_sock handshake_bind of
             Inl e \<Rightarrow> Inl e
           | Inr _ \<Rightarrow>
               (case bind_sock tftp_bind of
                  Inl e \<Rightarrow> Inl e
                | Inr _ \<Rightarrow>
                    Inr (set_block_size DEFAULT_BLOCK_SIZE
                          \<lparr>data = fw,
                           filename_bytes = filename,
                           rrq_prefix = opcode @ filename @ octet_marker,
                           block_size = 0,
                           total_blocks = 0,
                           handshake_sock = [],
                           tftp_sock = []\<rparr>))))"

subsection \<open>Option parsing\<close>

type_synonym options = "string \<rightharpoonup> string"

text \<open>The \<^verbatim>\<open>while\<close> loop of \<^verbatim>\<open>_parse_options\<close>, with its index \<open>i\<close> and the dictionary
  built so far.\<close>

function opts_loop :: "runtime \<Rightarrow> bytes list \<Rightarrow> int \<Rightarrow> options \<Rightarrow> error + options" where
  "opts_loop rt parts i opts =
     (if i < int (length parts) - 1 then
        (case py_index parts i of
           Inl e \<Rightarrow> Inl e
         | Inr p0 \<Rightarrow>
             (case py_index parts (i + 1) of
                Inl e \<Rightarrow> Inl e
              | Inr p1 \<Rightarrow>
                  (let key = str_lower rt (bytes_decode rt p0);
                       val = bytes_decode rt p1
                   in opts_loop rt parts (i + 2)
                        (if key \<noteq> [] then opts(key \<mapsto> val) else opts))))
      else Inr opts)"
  by pat_completeness auto
termination
  by (relation "measure (\<lambda>(rt, parts, i, opts). nat (int (length parts) - i))") auto

declare opts_loop.simps [simp del]

text \<open>\<^verbatim>\<open>_parse_options\<close>: the \<^verbatim>\<open>IndexError\<close> of \<^verbatim>\<open>[1]\<close> is caught and gives the empty
  dictionary.\<close>

definition parse_options :: "runtime \<Rightarrow> bytes \<Rightarrow> error + options" where
  "parse_options rt pkt =
     (case py_index (split_once octet_marker pkt) 1 of
        Inl e \<Rightarrow> (if e = IndexError then Inr Map.empty else Inl e)
      | Inr after_mode \<Rightarrow> opts_loop rt (split_byte (CHR 0x00) after_mode) 0 Map.empty)"

subsection \<open>Sending\<close>

text \<open>\<^verbatim>\<open>self._tftp_sock.sendto(pkt, addr)\<close>.\<close>

definition sendto_tftp :: "bytes \<Rightarrow> addr \<Rightarrow> server \<Rightarrow> server" where
  "sendto_tftp pkt addr s = s\<lparr>tftp_sock := tftp_sock s @ [(pkt, addr)]\<rparr>"

text \<open>\<^verbatim>\<open>_send_oack\<close>.\<close>

definition send_oack :: "addr \<Rightarrow> server \<Rightarrow> (error + unit) \<times> server" where
  "send_oack addr s =
     (case check_limits s of
        Inl e \<Rightarrow> (Inl e, s)
      | Inr _ \<Rightarrow>
          (case pack_H OP_OACK of
             Inl e \<Rightarrow> (Inl e, s)
           | Inr opcode \<Rightarrow>
               (Inr (),
                sendto_tftp
                  (opcode @ ''blksize'' @ [CHR 0x00] @ str_int (block_size s) @ [CHR 0x00])
                  addr s)))"

text \<open>\<^verbatim>\<open>_send_block\<close>. After \<^verbatim>\<open>sendto\<close> the progress line divides by
  \<^verbatim>\<open>self._total_blocks\<close> twice, which raises \<^verbatim>\<open>ZeroDivisionError\<close> when it is zero.\<close>

definition send_block :: "int \<Rightarrow> addr \<Rightarrow> server \<Rightarrow> (error + unit) \<times> server" where
  "send_block prev_block addr s =
     (let block = prev_block + 1;
          start = prev_block * block_size s;
          d = py_slice (data s) start (start + block_size s)
      in if d = [] then
           (Inr (),
            if block_size s \<noteq> DEFAULT_BLOCK_SIZE
            then set_block_size DEFAULT_BLOCK_SIZE s else s)
         else
           (case pack_HH OP_DATA block of
              Inl e \<Rightarrow> (Inl e, s)
            | Inr header \<Rightarrow>
                (let s' = sendto_tftp (header @ d) addr s
                 in if total_blocks s' = 0 then (Inl ZeroDivisionError, s')
                    else (Inr (), s'))))"

subsection \<open>The handlers\<close>

text \<open>\<^verbatim>\<open>_handle_handshake\<close>, for the datagram \<open>dgram\<close> that arrived from \<open>addr\<close>.\<close>

definition handle_handshake :: "bytes \<Rightarrow> addr \<Rightarrow> server \<Rightarrow> (error + unit) \<times> server" where
  "handle_handshake dgram addr s =
     (let pkt = recvfrom 20 dgram
      in if pkt = HANDSHAKE_BYTES
         then (Inr (), s\<lparr>handshake_sock := handshake_sock s @ [(pkt, addr)]\<rparr>)
         else (Inr (), s))"

text \<open>The end of the Read-Request branch of \<^verbatim>\<open>_handle_tftp\<close>:
  \<^verbatim>\<open>self._check_limits(); self._send_block(0, addr)\<close>.\<close>

definition start_transfer :: "addr \<Rightarrow> server \<Rightarrow> (error + unit) \<times> server" where
  "start_transfer addr s =
     (case check_limits s of
        Inl e \<Rightarrow> (Inl e, s)
      | Inr _ \<Rightarrow> send_block 0 addr s)"

text \<open>\<^verbatim>\<open>_handle_tftp\<close>, for the datagram \<open>dgram\<close> that arrived from \<open>addr\<close>. The
  \<^verbatim>\<open>try\<close> block catches \<^verbatim>\<open>ValueError\<close> only, from \<^verbatim>\<open>int\<close> or from anything below it, and
  then falls through to the plain start of the transfer.\<close>

definition handle_tftp :: "runtime \<Rightarrow> bytes \<Rightarrow> addr \<Rightarrow> server \<Rightarrow> (error + unit) \<times> server" where
  "handle_tftp rt dgram addr s =
     (let pkt = recvfrom 65536 dgram
      in if startswith pkt (rrq_prefix s) then
           (case parse_options rt pkt of
              Inl e \<Rightarrow> (Inl e, s)
            | Inr opts \<Rightarrow>
                (case opts ''blksize'' of
                   None \<Rightarrow> start_transfer addr s
                 | Some v \<Rightarrow>
                     (case int_of_str rt v of
                        None \<Rightarrow> start_transfer addr s
                      | Some sz \<Rightarrow>
                          if 8 \<le> sz \<and> sz \<le> 65464 then
                            (let (r, s') = send_oack addr (set_block_size sz s)
                             in if r = Inl ValueError then start_transfer addr s'
                                else (r, s'))
                          else start_transfer addr s)))
         else if startswith pkt ACK_PREFIX \<and> length pkt \<ge> 4 then
           (case unpack_H (py_slice pkt 2 4) of
              Inl e \<Rightarrow> (Inl e, s)
            | Inr block \<Rightarrow> send_block block addr s)
         else (Inr (), s))"

subsection \<open>The event loop and the entry point\<close>

text \<open>
  What \<^verbatim>\<open>select\<close> reports, one readable socket at a time with the datagram waiting on
  it, or the user's interrupt. The console lines that tell how the process ended are
  the messages; the other lines are left out.
\<close>

datatype event =
    HandshakeReadable bytes addr
  | TftpReadable bytes addr
  | KeyboardInterrupt

datatype message =
    FileNotFound
  | CannotRead
  | SetupError
  | UnexpectedSetupError
  | Interrupted
  | UnexpectedError error
  | ServerStopped
  | Goodbye

text \<open>The \<^verbatim>\<open>while True\<close> loop of \<^verbatim>\<open>run\<close> over the events that arrive. It ends at an
  interrupt or at the first exception; \<open>None\<close> when the events run out with the loop
  still waiting.\<close>

fun run_loop :: "runtime \<Rightarrow> event list \<Rightarrow> server \<Rightarrow> (message list \<times> server) option" where
  "run_loop rt [] s = None"
| "run_loop rt (KeyboardInterrupt # evs) s = Some ([Interrupted], s)"
| "run_loop rt (HandshakeReadable dgram addr # evs) s =
     (case handle_handshake dgram addr s of
        (Inl e, s') \<Rightarrow> Some ([UnexpectedError e], s')
      | (Inr _, s') \<Rightarrow> run_loop rt evs s')"
| "run_loop rt (TftpReadable dgram addr # evs) s =
     (case handle_tftp rt dgram addr s of
        (Inl e, s') \<Rightarrow> Some ([UnexpectedError e], s')
      | (Inr _, s') \<Rightarrow> run_loop rt evs s')"

text \<open>\<^verbatim>\<open>run\<close>: the loop, then \<^verbatim>\<open>self.close()\<close> and the last line.\<close>

definition run :: "runtime \<Rightarrow> event list \<Rightarrow> server \<Rightarrow> (message list \<times> server) option" where
  "run rt evs s =
     (case run_loop rt evs s of
        None \<Rightarrow> None
      | Some (msgs, s') \<Rightarrow> Some (msgs @ [ServerStopped], s'))"

text \<open>The entry point, after argument parsing. \<open>file\<close> is what the file system holds
  under the file name. The result is the messages printed, the exit status of the
  process and the datagrams sent on the TFTP socket.\<close>

datatype firmware_file = Missing | Unreadable | Contents bytes

definition main ::
  "runtime \<Rightarrow> firmware_file \<Rightarrow> bind_result \<Rightarrow> bind_result \<Rightarrow> bytes \<Rightarrow> event list
     \<Rightarrow> (message list \<times> int \<times> datagram list) option" where
  "main rt file handshake_bind tftp_bind filename evs =
     (case file of
        Missing \<Rightarrow> Some ([FileNotFound], 1, [])
      | Unreadable \<Rightarrow> Some ([CannotRead], 1, [])
      | Contents firmware \<Rightarrow>
          if firmware = [] then Some ([CannotRead], 1, [])
          else
            (case init handshake_bind tftp_bind filename firmware of
               Inl e \<Rightarrow>
                 (if e = TFTPError then Some ([SetupError], 1, [])
                  else Some ([UnexpectedSetupError], 1, []))
             | Inr srv \<Rightarrow>
                 (case run rt evs srv of
                    None \<Rightarrow> None
                  | Some (msgs, s') \<Rightarrow> Some (msgs @ [Goodbye], 0, tftp_sock s'))))"

subsection \<open>Notions of the specification\<close>

text \<open>The relation between the two attributes that \<^verbatim>\<open>_set_block_size\<close> assigns
  together: the block size is positive and the block count is the one computed from
  it.\<close>

definition server_inv :: "server \<Rightarrow> bool" where
  "server_inv s \<longleftrightarrow>
     0 < block_size s \<and>
     total_blocks s = (int (length (data s)) + block_size s - 1) div block_size s \<and>
     rrq_prefix s = [CHR 0x00, CHR 0x01] @ filename_bytes s @ octet_marker"

text \<open>The server objects that can arise: the one that \<^verbatim>\<open>__init__\<close> builds, and what a
  handler leaves of one that can arise. Each of them satisfies \<open>server_inv\<close> (lemma
  \<open>reachable_server_inv\<close>).\<close>

inductive reachable :: "runtime \<Rightarrow> server \<Rightarrow> bool" for rt :: runtime where
  built: "init handshake_bind tftp_bind filename fw = Inr s \<Longrightarrow> reachable rt s"
| handshake: "reachable rt s \<Longrightarrow> reachable rt (snd (handle_handshake dgram addr s))"
| tftp: "reachable rt s \<Longrightarrow> reachable rt (snd (handle_tftp rt dgram addr s))"

text \<open>The packets of the protocol: a DATA packet is opcode 3, the block number in 16
  bits big endian, and the payload; an OACK packet is opcode 6, \<open>blksize\<close>, a null byte,
  the accepted value in decimal, a null byte.\<close>

definition DATA :: "int \<Rightarrow> bytes \<Rightarrow> bytes" where
  "DATA n payload = [CHR 0x00, CHR 0x03, char_of (n div 256), char_of (n mod 256)] @ payload"

definition OACK :: "int \<Rightarrow> bytes" where
  "OACK sz = [CHR 0x00, CHR 0x06] @ ''blksize'' @ [CHR 0x00] @ str_int sz @ [CHR 0x00]"

text \<open>The firmware bytes at the offsets in \<open>[lo, hi)\<close>, as far as the firmware reaches.\<close>

definition firmware_range :: "server \<Rightarrow> int \<Rightarrow> int \<Rightarrow> bytes" where
  "firmware_range s lo hi = take (nat hi - nat lo) (drop (nat lo) (data s))"

text \<open>The block number that an Acknowledgment packet carries in its bytes 2 and 3.\<close>

definition ack_block :: "bytes \<Rightarrow> int" where
  "ack_block pkt = 256 * of_char (pkt ! 2) + of_char (pkt ! 3)"

text \<open>The usable \<open>blksize\<close> of a dictionary of options: the value of the option when it
  is present, is an integer, and lies in \<open>[8, 65464]\<close>.\<close>

definition usable_blksize :: "runtime \<Rightarrow> options \<Rightarrow> int option" where
  "usable_blksize rt opts =
     (case opts ''blksize'' of
        None \<Rightarrow> None
      | Some v \<Rightarrow>
          (case int_of_str rt v of
             None \<Rightarrow> None
           | Some sz \<Rightarrow> if 8 \<le> sz \<and> sz \<le> 65464 then Some sz else None))"

text \<open>What \<^verbatim>\<open>_send_block\<close> leaves when the transfer is over: the default block size.\<close>

definition finished :: "server \<Rightarrow> server" where
  "finished s =
     (if block_size s \<noteq> DEFAULT_BLOCK_SIZE then set_block_size DEFAULT_BLOCK_SIZE s else s)"

text \<open>The dictionary that the loop of \<^verbatim>\<open>_parse_options\<close> builds, told by the list of
  parts alone: consecutive parts are paired as name and value, a later pair overrides
  an earlier one with the same name, a pair whose decoded name is empty is skipped,
  and a last part without a partner is left out (lemma \<open>opts_loop_pairs\<close>).\<close>

fun pairs_dict :: "runtime \<Rightarrow> bytes list \<Rightarrow> options \<Rightarrow> options" where
  "pairs_dict rt (p0 # p1 # rest) opts =
     pairs_dict rt rest
       (if str_lower rt (bytes_decode rt p0) \<noteq> []
        then opts(str_lower rt (bytes_decode rt p0) \<mapsto> bytes_decode rt p1)
        else opts)"
| "pairs_dict rt [p] opts = opts"
| "pairs_dict rt [] opts = opts"

text \<open>The options of a request: the dictionary that \<^verbatim>\<open>_parse_options\<close> returns
  (lemma \<open>parse_options_request\<close>: it always returns one).\<close>

definition request_options :: "runtime \<Rightarrow> bytes \<Rightarrow> options" where
  "request_options rt pkt = (case parse_options rt pkt of Inr m \<Rightarrow> m | Inl _ \<Rightarrow> Map.empty)"

text \<open>The server object that \<^verbatim>\<open>__init__\<close> builds for the file name \<open>digicap.dav\<close> and the
  firmware \<open>fw\<close> when both sockets are bound (lemma \<open>init_started\<close>).\<close>

definition started :: "bytes \<Rightarrow> server" where
  "started fw =
     \<lparr>data = fw, filename_bytes = ''digicap.dav'',
      rrq_prefix = [CHR 0x00, CHR 0x01] @ ''digicap.dav'' @ octet_marker,
      block_size = 512, total_blocks = (int (length fw) + 511) div 512,
      handshake_sock = [], tftp_sock = []\<rparr>"

section \<open>Properties\<close>

subsection \<open>Arithmetic and evaluation lemmas\<close>

lemma ceil_div_int:
  fixes L S :: int
  assumes "0 < S"
  shows "(L + S - 1) div S = \<lceil>real_of_int L / real_of_int S\<rceil>"
proof -
  have c: "\<lceil>real_of_int L / real_of_int S\<rceil> = - (- L div S)"
    by (rule ceiling_divide_eq_div)
  have d: "- (- L div S) = (if L mod S = 0 then L div S else L div S + 1)"
    using assms by (simp add: zdiv_zminus1_eq_if)
  have e: "L + S - 1 = (L mod S + S - 1) + S * (L div S)"
    by (simp add: algebra_simps)
  have f: "(L + S - 1) div S = (L mod S + S - 1) div S + L div S"
    using assms by (subst e) simp
  have g: "(L mod S + S - 1) div S = (if L mod S = 0 then 0 else 1)"
  proof (cases "L mod S = 0")
    case True
    then show ?thesis using assms by simp
  next
    case False
    have "0 \<le> L mod S" "L mod S < S" using assms by simp_all
    with False have "(L mod S - 1) + S = L mod S + S - 1" "0 \<le> L mod S - 1" "L mod S - 1 < S"
      by auto
    then have "(L mod S + S - 1) div S = 1"
      using assms
      by (metis add.commute div_add_self1 div_pos_pos_trivial add.right_neutral less_irrefl)
    with False show ?thesis by simp
  qed
  show ?thesis unfolding c d f g by simp
qed

lemma init_Bound:
  "init Bound Bound fn fw =
     Inr \<lparr>data = fw, filename_bytes = fn,
          rrq_prefix = [CHR 0x00, CHR 0x01] @ fn @ octet_marker,
          block_size = 512, total_blocks = (int (length fw) + 511) div 512,
          handshake_sock = [], tftp_sock = []\<rparr>"
  by (simp add: init_def pack_H_def OP_RRQ_def bind_sock_def set_block_size_def
      DEFAULT_BLOCK_SIZE_def char_of_eq_iff take_bit_eq_mod add.commute)

subsection \<open>Block count and the overflow check\<close>

text \<open>
  Claim C1. For every firmware length and every block size \<open>S\<close> in \<open>[8, 65464]\<close>,
  \<^verbatim>\<open>_set_block_size(S)\<close> stores \<open>S\<close> and the block count \<open>\<lceil>L / S\<rceil>\<close>, where \<open>L\<close> is the
  length of the firmware; \<^verbatim>\<open>_check_limits\<close> then raises \<^verbatim>\<open>TFTPError\<close> exactly when that
  count is greater than 65535, and returns normally exactly when it is at most 65535.
\<close>

theorem set_block_size_ceiling:
  assumes "8 \<le> S" and "S \<le> 65464"
  shows "block_size (set_block_size S s) = S \<and>
         total_blocks (set_block_size S s) = \<lceil>real (length (data s)) / real_of_int S\<rceil> \<and>
         (check_limits (set_block_size S s) = Inl TFTPError) =
           (65535 < total_blocks (set_block_size S s)) \<and>
         (check_limits (set_block_size S s) = Inr ()) =
           (total_blocks (set_block_size S s) \<le> 65535)"
proof -
  have "0 < S" using assms by simp
  then have "(int (length (data s)) + S - 1) div S = \<lceil>real (length (data s)) / real_of_int S\<rceil>"
    using ceil_div_int [of S "int (length (data s))"] by simp
  then show ?thesis
    by (simp add: set_block_size_def check_limits_def)
qed

text \<open>At block size 8, a firmware of \<open>8 * 65535\<close> bytes has 65535 blocks and passes the
  check; one byte more gives 65536 blocks and \<^verbatim>\<open>TFTPError\<close>.\<close>

theorem set_block_size_ceiling_witness:
  "\<exists>s. init Bound Bound ''digicap.dav'' (replicate 524280 (CHR 0x00)) = Inr s \<and>
       total_blocks (set_block_size 8 s) = 65535 \<and>
       check_limits (set_block_size 8 s) = Inr () \<and>
       total_blocks (set_block_size 8 (s\<lparr>data := replicate 524281 (CHR 0x00)\<rparr>)) = 65536 \<and>
       check_limits (set_block_size 8 (s\<lparr>data := replicate 524281 (CHR 0x00)\<rparr>)) = Inl TFTPError"
proof -
  let ?s = "\<lparr>data = replicate 524280 (CHR 0x00), filename_bytes = ''digicap.dav'',
          rrq_prefix = [CHR 0x00, CHR 0x01] @ ''digicap.dav'' @ octet_marker,
          block_size = 512,
          total_blocks = (int (length (replicate 524280 (CHR 0x00))) + 511) div 512,
          handshake_sock = [], tftp_sock = []\<rparr>"
  have a: "(8::int) \<le> 8" and b: "(8::int) \<le> 65464" by simp_all
  show ?thesis
    using set_block_size_ceiling [OF a b, of ?s]
      set_block_size_ceiling [OF a b, of "?s\<lparr>data := replicate 524281 (CHR 0x00)\<rparr>"]
    by (simp add: init_Bound)
qed

subsection \<open>Packing, slices and the block count\<close>

lemma char_of_numeral_simps:
  "char_of (0::int) = CHR 0x00" "char_of (1::int) = CHR 0x01"
  "char_of (3::int) = CHR 0x03" "char_of (6::int) = CHR 0x06"
  by (simp_all add: char_of_eq_iff take_bit_eq_mod)

lemma ACK_PREFIX_pack: "pack_H OP_ACK = Inr ACK_PREFIX"
  by (simp add: pack_H_def OP_ACK_def ACK_PREFIX_def char_of_eq_iff take_bit_eq_mod)

lemma pack_H_ok: "0 \<le> n \<Longrightarrow> n \<le> 65535 \<Longrightarrow> pack_H n = Inr [char_of (n div 256), char_of (n mod 256)]"
  by (simp add: pack_H_def)

lemma pack_HH_DATA:
  "pack_HH OP_DATA n =
     (if 0 \<le> n \<and> n \<le> 65535 then Inr [CHR 0x00, CHR 0x03, char_of (n div 256), char_of (n mod 256)]
      else Inl StructError)"
  by (simp add: pack_HH_def pack_H_def OP_DATA_def char_of_numeral_simps)

lemma py_slice_nonneg:
  assumes "0 \<le> a" and "0 \<le> w"
  shows "py_slice xs a (a + w) = take (nat w) (drop (nat a) xs)"
proof (cases "a < int (length xs)")
  case True
  then show ?thesis using assms
    by (auto simp: py_slice_def Let_def min_def nat_diff_distrib nat_add_distrib)
next
  case False
  then show ?thesis using assms
    by (auto simp: py_slice_def Let_def min_def)
qed

lemma py_slice_nonneg_empty:
  assumes "0 \<le> a" and "0 < w"
  shows "(py_slice xs a (a + w) = []) = (int (length xs) \<le> a)"
  using assms by (auto simp: py_slice_nonneg)

lemma py_slice_block:
  assumes "0 \<le> K" and "0 < S"
  shows "py_slice xs (K * S) (K * S + S) = take (nat (K * S + S) - nat (K * S)) (drop (nat (K * S)) xs)"
proof -
  have k: "0 \<le> K * S" using assms by simp
  have "nat (K * S + S) - nat (K * S) = nat S" using k assms by (simp add: nat_add_distrib)
  then show ?thesis using py_slice_nonneg [OF k, of S xs] assms by simp
qed

lemma py_slice_block_empty:
  assumes "0 \<le> K" and "0 < S"
  shows "(py_slice xs (K * S) (K * S + S) = []) = (int (length xs) \<le> K * S)"
proof -
  have k: "0 \<le> K * S" using assms by simp
  show ?thesis using py_slice_nonneg_empty [OF k, of S xs] assms by simp
qed

lemma blocks_le_iff:
  fixes L S K :: int
  assumes "0 < S"
  shows "((L + S - 1) div S \<le> K) = (L \<le> K * S)"
proof -
  have "((L + S - 1) div S \<le> K) = (\<lceil>real_of_int L / real_of_int S\<rceil> \<le> K)"
    using ceil_div_int [OF assms, of L] by simp
  also have "\<dots> = (real_of_int L / real_of_int S \<le> real_of_int K)"
    by (simp add: ceiling_le_iff)
  also have "\<dots> = (real_of_int L \<le> real_of_int K * real_of_int S)"
    using assms by (simp add: pos_divide_le_eq)
  also have "\<dots> = (L \<le> K * S)"
    by (metis of_int_le_iff of_int_mult)
  finally show ?thesis .
qed

lemma total_blocks_nonneg: "server_inv s \<Longrightarrow> 0 \<le> total_blocks s"
  by (simp add: server_inv_def pos_imp_zdiv_nonneg_iff)

lemma server_inv_finished: "server_inv s \<Longrightarrow> server_inv (finished s)"
  by (simp add: server_inv_def finished_def set_block_size_def DEFAULT_BLOCK_SIZE_def)

lemma send_block_cases:
  assumes inv: "server_inv s" and K: "0 \<le> K"
  shows "send_block K addr s =
     (if total_blocks s < K + 1 then (Inr (), finished s)
      else if K + 1 \<le> 65535 then
        (Inr (), sendto_tftp (DATA (K + 1)
                   (firmware_range s (K * block_size s) ((K + 1) * block_size s))) addr s)
      else (Inl StructError, s))"
proof -
  let ?S = "block_size s"
  have S: "0 < ?S" using inv by (simp add: server_inv_def)
  have tot: "(total_blocks s \<le> K) = (int (length (data s)) \<le> K * ?S)"
    using inv blocks_le_iff [OF S] by (simp add: server_inv_def)
  have empty: "(py_slice (data s) (K * ?S) (K * ?S + ?S) = []) = (total_blocks s < K + 1)"
    using py_slice_block_empty [OF K S] tot by simp
  have sl: "py_slice (data s) (K * ?S) (K * ?S + ?S) = firmware_range s (K * ?S) ((K + 1) * ?S)"
    using py_slice_block [OF K S] by (simp add: firmware_range_def algebra_simps)
  show ?thesis
  proof (cases "total_blocks s < K + 1")
    case True
    then show ?thesis using empty
      by (simp add: send_block_def Let_def finished_def)
  next
    case False
    then have pos: "0 < total_blocks s" using K by simp
    from False have ne: "py_slice (data s) (K * ?S) (K * ?S + ?S) \<noteq> []" using empty by simp
    show ?thesis using False ne pos K
      by (simp add: send_block_def Let_def pack_HH_DATA sl DATA_def sendto_tftp_def)
  qed
qed

lemma init_started: "init Bound Bound ''digicap.dav'' fw = Inr (started fw)"
  by (simp add: init_Bound started_def)

lemma server_inv_started: "server_inv (started fw)"
  by (simp add: server_inv_def started_def)

lemma server_inv_init: "init handshake_bind tftp_bind fn fw = Inr s \<Longrightarrow> server_inv s"
  by (auto simp: init_def pack_H_def OP_RRQ_def set_block_size_def DEFAULT_BLOCK_SIZE_def
      server_inv_def char_of_numeral_simps split: sum.splits)

lemma server_inv_set_block_size: "server_inv s \<Longrightarrow> 0 < sz \<Longrightarrow> server_inv (set_block_size sz s)"
  by (simp add: server_inv_def set_block_size_def)

subsection \<open>Completion of a transfer\<close>

text \<open>
  Claim C5, as amended. For every block number \<open>N\<close> greater than the total block count,
  sending block \<open>N\<close> (the call \<^verbatim>\<open>_send_block(N - 1, addr)\<close>) returns normally, sends nothing
  on either socket and leaves the block size at the default 512. Repeating the call is
  again such a no-op when \<open>N\<close> is also greater than the block count at the default block
  size, which is so whenever the block size before the first call was at most 512.
\<close>

theorem send_block_past_end:
  assumes "server_inv s" and "total_blocks s < N"
  shows "send_block (N - 1) addr s = (Inr (), finished s) \<and>
         tftp_sock (finished s) = tftp_sock s \<and>
         handshake_sock (finished s) = handshake_sock s \<and>
         block_size (finished s) = DEFAULT_BLOCK_SIZE \<and>
         (total_blocks (finished s) < N \<longrightarrow>
            send_block (N - 1) addr (finished s) = (Inr (), finished s)) \<and>
         (block_size s \<le> DEFAULT_BLOCK_SIZE \<longrightarrow> total_blocks (finished s) < N)"
proof -
  have N: "0 \<le> N - 1" using total_blocks_nonneg [OF assms(1)] assms(2) by simp
  have first: "send_block (N - 1) addr s = (Inr (), finished s)"
    using send_block_cases [OF assms(1) N, of addr] assms(2) by simp
  have inv': "server_inv (finished s)" by (rule server_inv_finished [OF assms(1)])
  have ff: "finished (finished s) = finished s"
    by (simp add: finished_def set_block_size_def)
  have again: "total_blocks (finished s) < N \<Longrightarrow>
      send_block (N - 1) addr (finished s) = (Inr (), finished s)"
    using send_block_cases [OF inv' N, of addr] ff by simp
  have small: "total_blocks (finished s) < N" if le: "block_size s \<le> DEFAULT_BLOCK_SIZE"
  proof -
    let ?L = "int (length (data s))"
    have S: "0 < block_size s" using assms(1) by (simp add: server_inv_def)
    have "total_blocks s \<le> N - 1" using assms(2) by simp
    then have "?L \<le> (N - 1) * block_size s"
      using assms(1) blocks_le_iff [OF S, of ?L "N - 1"] by (simp add: server_inv_def)
    also have "\<dots> \<le> (N - 1) * 512"
      using le N by (intro mult_left_mono) (simp_all add: DEFAULT_BLOCK_SIZE_def)
    finally have "(?L + 512 - 1) div 512 \<le> N - 1"
      using blocks_le_iff [of 512 ?L "N - 1"] by simp
    moreover have "total_blocks (finished s) = (?L + 512 - 1) div 512"
      using assms(1) by (simp add: finished_def set_block_size_def server_inv_def DEFAULT_BLOCK_SIZE_def)
    ultimately show ?thesis by simp
  qed
  show ?thesis using first again small
    by (simp add: finished_def set_block_size_def)
qed

text \<open>The firmware of 1500 bytes at the default block size has 3 blocks; sending
  block 4 and block 8 does nothing.\<close>

theorem send_block_past_end_witness:
  "total_blocks (started (replicate 1500 (CHR 0x00))) = 3 \<and>
   send_block 3 (''192.0.0.64'', 1024) (started (replicate 1500 (CHR 0x00)))
     = (Inr (), started (replicate 1500 (CHR 0x00))) \<and>
   send_block 7 (''192.0.0.64'', 1024) (started (replicate 1500 (CHR 0x00)))
     = (Inr (), started (replicate 1500 (CHR 0x00)))"
proof -
  let ?s = "started (replicate 1500 (CHR 0x00))"
  have t: "total_blocks ?s = 3" by (simp add: started_def)
  have f: "finished ?s = ?s" by (simp add: finished_def started_def DEFAULT_BLOCK_SIZE_def)
  have a: "total_blocks ?s < 4" and b: "total_blocks ?s < 8" using t by simp_all
  show ?thesis
    using send_block_past_end [OF server_inv_started a, of "(''192.0.0.64'', 1024)"]
      send_block_past_end [OF server_inv_started b, of "(''192.0.0.64'', 1024)"] t f
    by simp
qed

text \<open>
  Claim C5 as stated fails after a negotiated block size above 512. The firmware of
  1500 bytes at block size 2000 has 1 block. Sending block 2 sends nothing and resets
  the block size to 512, which gives 3 blocks; sending block 2 once more then sends a
  DATA packet for block 2 with the 512 bytes at offset 512.
\<close>

theorem send_block_repeat_counterexample:
  "total_blocks (set_block_size 2000 (started (replicate 1500 (CHR 0x00)))) = 1 \<and>
   send_block 1 (''192.0.0.64'', 1024) (set_block_size 2000 (started (replicate 1500 (CHR 0x00))))
     = (Inr (), started (replicate 1500 (CHR 0x00))) \<and>
   send_block 1 (''192.0.0.64'', 1024) (started (replicate 1500 (CHR 0x00)))
     = (Inr (), (started (replicate 1500 (CHR 0x00)))
          \<lparr>tftp_sock := [(DATA 2 (replicate 512 (CHR 0x00)), (''192.0.0.64'', 1024))]\<rparr>)"
proof -
  let ?s = "started (replicate 1500 (CHR 0x00))"
  let ?s2 = "set_block_size 2000 ?s"
  have t: "total_blocks ?s2 = 1" by (simp add: started_def set_block_size_def)
  have inv2: "server_inv ?s2" by (simp add: server_inv_set_block_size server_inv_started)
  have f: "finished ?s2 = ?s"
    by (simp add: finished_def started_def set_block_size_def DEFAULT_BLOCK_SIZE_def)
  have one: "send_block 1 (''192.0.0.64'', 1024) ?s2 = (Inr (), ?s)"
    using send_block_cases [of ?s2 1 "(''192.0.0.64'', 1024)", OF inv2] t f by simp
  have t3: "total_blocks ?s = 3" by (simp add: started_def)
  have r: "firmware_range ?s (1 * block_size ?s) ((1 + 1) * block_size ?s) = replicate 512 (CHR 0x00)"
    by (simp add: firmware_range_def started_def)
  have two: "send_block 1 (''192.0.0.64'', 1024) ?s
     = (Inr (), ?s\<lparr>tftp_sock := [(DATA 2 (replicate 512 (CHR 0x00)), (''192.0.0.64'', 1024))]\<rparr>)"
    using send_block_cases [of ?s 1 "(''192.0.0.64'', 1024)", OF server_inv_started] t3 r
    by (simp add: sendto_tftp_def started_def)
  show ?thesis using t one two by simp
qed

subsection \<open>The block number of a DATA packet fits 16 bits\<close>

text \<open>
  Claim C9. For every acknowledged block number \<open>K\<close> in \<open>[0, 65535]\<close>, when the stored
  block count is at most 65535, \<^verbatim>\<open>_send_block(K, addr)\<close> returns normally: whenever \<open>K + 1\<close>
  exceeds 65535 the payload slice is empty and nothing is sent, so
  \<^verbatim>\<open>struct.pack('>HH', OP_DATA, block)\<close> is only reached with a block number it accepts.
\<close>

theorem send_block_pack_in_range:
  assumes "server_inv s" and "total_blocks s \<le> 65535" and "0 \<le> K" and "K \<le> 65535"
  shows "fst (send_block K addr s) = Inr () \<and>
         (65535 < K + 1 \<longrightarrow>
            py_slice (data s) (K * block_size s) (K * block_size s + block_size s) = [] \<and>
            tftp_sock (snd (send_block K addr s)) = tftp_sock s)"
proof -
  have S: "0 < block_size s" using assms(1) by (simp add: server_inv_def)
  have tot: "(total_blocks s \<le> K) = (int (length (data s)) \<le> K * block_size s)"
    using assms(1) blocks_le_iff [OF S] by (simp add: server_inv_def)
  have e: "65535 < K + 1 \<Longrightarrow> py_slice (data s) (K * block_size s) (K * block_size s + block_size s) = []"
    using py_slice_block_empty [OF assms(3) S, of "data s"] tot assms(2) by simp
  show ?thesis
    using send_block_cases [OF assms(1) assms(3), of addr] assms(2) e
    by (auto simp: finished_def set_block_size_def)
qed

text \<open>After the Acknowledgment of block 65535 the slice is empty and nothing is sent;
  after the Acknowledgment of block 2 the third block is sent.\<close>

theorem send_block_pack_in_range_witness:
  "fst (send_block 65535 (''192.0.0.64'', 1024) (started (replicate 1500 (CHR 0x00)))) = Inr () \<and>
   py_slice (replicate 1500 (CHR 0x00)) (65535 * 512) (65535 * 512 + 512) = [] \<and>
   tftp_sock (snd (send_block 65535 (''192.0.0.64'', 1024) (started (replicate 1500 (CHR 0x00))))) = [] \<and>
   fst (send_block 2 (''192.0.0.64'', 1024) (started (replicate 1500 (CHR 0x00)))) = Inr ()"
proof -
  let ?s = "started (replicate 1500 (CHR 0x00))"
  have t: "total_blocks ?s \<le> 65535" by (simp add: started_def)
  have k: "(0::int) \<le> 65535" "(65535::int) \<le> 65535" "(0::int) \<le> 2" "(2::int) \<le> 65535" by simp_all
  show ?thesis
    using send_block_pack_in_range [OF server_inv_started t k(1) k(2), of "(''192.0.0.64'', 1024)"]
      send_block_pack_in_range [OF server_inv_started t k(3) k(4), of "(''192.0.0.64'', 1024)"]
    by (simp add: started_def)
qed

subsection \<open>Acknowledgments\<close>

lemma of_char_int_bounds: "0 \<le> (of_char c :: int) \<and> (of_char c :: int) < 256"
proof -
  have "(of_char c :: int) = int (of_char c)" by (simp add: of_nat_of_char)
  moreover have "(of_char c :: nat) < 256" by simp
  ultimately show ?thesis by linarith
qed

lemma ack_block_bounds: "0 \<le> ack_block pkt \<and> ack_block pkt \<le> 65535"
  using of_char_int_bounds [of "pkt ! 2"] of_char_int_bounds [of "pkt ! 3"]
  by (simp add: ack_block_def)

lemma ack_not_rrq:
  assumes "server_inv s" and "startswith pkt ACK_PREFIX"
  shows "\<not> startswith pkt (rrq_prefix s)"
proof
  assume "startswith pkt (rrq_prefix s)"
  then obtain zs where "pkt = [CHR 0x00, CHR 0x01] @ filename_bytes s @ octet_marker @ zs"
    using assms(1) by (auto simp: startswith_def server_inv_def prefix_def)
  moreover obtain ys where "pkt = [CHR 0x00, CHR 0x04] @ ys"
    using assms(2) by (auto simp: startswith_def ACK_PREFIX_def prefix_def)
  ultimately show False by simp
qed

lemma unpack_ack:
  assumes "4 \<le> length pkt"
  shows "unpack_H (py_slice pkt 2 4) = Inr (ack_block pkt)"
proof -
  obtain a b c d r where p: "pkt = a # b # c # d # r"
    using assms by (auto simp: Suc_le_length_iff eval_nat_numeral)
  show ?thesis unfolding p
    by (simp add: unpack_H_def py_slice_def ack_block_def Let_def min_def)
qed

lemma ack_block_recvfrom:
  "4 \<le> length (recvfrom 65536 dgram) \<Longrightarrow> ack_block (recvfrom 65536 dgram) = ack_block dgram"
  by (simp add: ack_block_def recvfrom_def)

lemma handle_tftp_ack_send:
  assumes "server_inv s"
    and "startswith (recvfrom 65536 dgram) ACK_PREFIX"
    and "4 \<le> length (recvfrom 65536 dgram)"
  shows "handle_tftp rt dgram addr s = send_block (ack_block dgram) addr s"
  using ack_not_rrq [OF assms(1) assms(2)] assms(2) assms(3)
    unpack_ack [OF assms(3)] ack_block_recvfrom [OF assms(3)]
  by (simp add: handle_tftp_def Let_def)

lemma handle_tftp_ack_eval:
  assumes "server_inv s"
  shows "handle_tftp rt [CHR 0x00, CHR 0x04, hi, lo] addr s =
           send_block (256 * of_char hi + of_char lo) addr s"
  using handle_tftp_ack_send [OF assms, of "[CHR 0x00, CHR 0x04, hi, lo]" rt addr]
  by (simp add: startswith_def recvfrom_def ACK_PREFIX_def ack_block_def)

text \<open>
  Claim C3, as amended. For every datagram on the TFTP port that starts with the
  2-byte ACK opcode and has at least 4 bytes, with acknowledged block number \<open>K\<close>, and
  provided \<open>K + 1\<close> is at most 65535 or the stored block count is at most 65535: when
  \<open>K + 1\<close> is at most the block count the engine sends to the sender exactly one DATA
  packet, for block \<open>K + 1\<close> with the firmware bytes \<open>[K * S, (K + 1) * S)\<close>; otherwise it
  sends nothing (and the block size returns to the default).
\<close>

theorem handle_tftp_ack:
  assumes "server_inv s"
    and "startswith (recvfrom 65536 dgram) ACK_PREFIX"
    and "4 \<le> length (recvfrom 65536 dgram)"
    and "ack_block dgram + 1 \<le> 65535 \<or> total_blocks s \<le> 65535"
  shows "handle_tftp rt dgram addr s =
     (if ack_block dgram + 1 \<le> total_blocks s
      then (Inr (), sendto_tftp
              (DATA (ack_block dgram + 1)
                 (firmware_range s (ack_block dgram * block_size s)
                    ((ack_block dgram + 1) * block_size s))) addr s)
      else (Inr (), finished s))"
proof -
  let ?pkt = "recvfrom 65536 dgram"
  have K: "0 \<le> ack_block dgram" using ack_block_bounds by simp
  have h: "handle_tftp rt dgram addr s = send_block (ack_block dgram) addr s"
    by (rule handle_tftp_ack_send [OF assms(1-3)])
  show ?thesis
    unfolding h using send_block_cases [OF assms(1) K, of addr] assms(4) by auto
qed

text \<open>A firmware of 26 bytes at block size 10: the Acknowledgment of block 2 is
  answered by block 3 with the last 6 bytes, the Acknowledgment of block 3 by nothing.\<close>

theorem handle_tftp_ack_witness:
  "handle_tftp ascii_runtime [CHR 0x00, CHR 0x04, CHR 0x00, CHR 0x02] (''192.0.0.64'', 1024)
      (set_block_size 10 (started ''abcdefghijklmnopqrstuvwxyz''))
    = (Inr (), (set_block_size 10 (started ''abcdefghijklmnopqrstuvwxyz''))
         \<lparr>tftp_sock := [([CHR 0x00, CHR 0x03, CHR 0x00, CHR 0x03] @ ''uvwxyz'', (''192.0.0.64'', 1024))]\<rparr>) \<and>
   handle_tftp ascii_runtime [CHR 0x00, CHR 0x04, CHR 0x00, CHR 0x03] (''192.0.0.64'', 1024)
      (set_block_size 10 (started ''abcdefghijklmnopqrstuvwxyz''))
    = (Inr (), started ''abcdefghijklmnopqrstuvwxyz'')"
proof -
  let ?s = "set_block_size 10 (started ''abcdefghijklmnopqrstuvwxyz'')"
  have inv: "server_inv ?s" by (simp add: server_inv_set_block_size server_inv_started)
  have a2: "ack_block [CHR 0x00, CHR 0x04, CHR 0x00, CHR 0x02] = 2"
    and a3: "ack_block [CHR 0x00, CHR 0x04, CHR 0x00, CHR 0x03] = 3"
    by (simp_all add: ack_block_def)
  have t: "total_blocks ?s = 3" "block_size ?s = 10"
    by (simp_all add: set_block_size_def started_def)
  have f: "finished ?s = started ''abcdefghijklmnopqrstuvwxyz''"
    by (simp add: finished_def set_block_size_def started_def DEFAULT_BLOCK_SIZE_def)
  have d: "DATA 3 (firmware_range ?s 20 30) = [CHR 0x00, CHR 0x03, CHR 0x00, CHR 0x03] @ ''uvwxyz''"
    by (simp add: DATA_def firmware_range_def set_block_size_def started_def
        char_of_eq_iff take_bit_eq_mod)
  have 1: "handle_tftp ascii_runtime [CHR 0x00, CHR 0x04, CHR 0x00, CHR 0x02] (''192.0.0.64'', 1024) ?s
    = (Inr (), ?s\<lparr>tftp_sock := [([CHR 0x00, CHR 0x03, CHR 0x00, CHR 0x03] @ ''uvwxyz'', (''192.0.0.64'', 1024))]\<rparr>)"
    using handle_tftp_ack [of ?s "[CHR 0x00, CHR 0x04, CHR 0x00, CHR 0x02]" ascii_runtime "(''192.0.0.64'', 1024)", OF inv]
      d unfolding a2 t
    by (simp add: startswith_def recvfrom_def ACK_PREFIX_def sendto_tftp_def set_block_size_def started_def)
  have 2: "handle_tftp ascii_runtime [CHR 0x00, CHR 0x04, CHR 0x00, CHR 0x03] (''192.0.0.64'', 1024) ?s
    = (Inr (), started ''abcdefghijklmnopqrstuvwxyz'')"
    using handle_tftp_ack [of ?s "[CHR 0x00, CHR 0x04, CHR 0x00, CHR 0x03]" ascii_runtime "(''192.0.0.64'', 1024)", OF inv]
      f unfolding a3 t
    by (simp add: startswith_def recvfrom_def ACK_PREFIX_def)
  show ?thesis using 1 2 by simp
qed

text \<open>
  Claim C3 as stated fails at \<open>K = 65535\<close> when the firmware has more than 65535 blocks.
  A firmware of \<open>512 * 65535 + 1\<close> bytes has 65536 blocks at the default block size, so
  block 65536 is within the count, yet the Acknowledgment of block 65535 sends nothing:
  \<^verbatim>\<open>struct.pack\<close> refuses the block number and the handler raises.
\<close>

theorem handle_tftp_ack_counterexample:
  "total_blocks (started (replicate 33553921 (CHR 0x00))) = 65536 \<and>
   ack_block [CHR 0x00, CHR 0x04, CHR 0xFF, CHR 0xFF] + 1 = 65536 \<and>
   handle_tftp ascii_runtime [CHR 0x00, CHR 0x04, CHR 0xFF, CHR 0xFF] (''192.0.0.64'', 1024)
      (started (replicate 33553921 (CHR 0x00)))
    = (Inl StructError, started (replicate 33553921 (CHR 0x00)))"
proof -
  let ?s = "started (replicate 33553921 (CHR 0x00))"
  let ?d = "[CHR 0x00, CHR 0x04, CHR 0xFF, CHR 0xFF]"
  have t: "total_blocks ?s = 65536" by (simp add: started_def)
  have a: "ack_block ?d = 65535" by (simp add: ack_block_def)
  have K: "(0::int) \<le> 65535" by simp
  have l: "4 \<le> length (recvfrom 65536 ?d)" by (simp add: recvfrom_def)
  have p: "startswith (recvfrom 65536 ?d) ACK_PREFIX"
    by (simp add: startswith_def recvfrom_def ACK_PREFIX_def)
  have h: "handle_tftp ascii_runtime ?d (''192.0.0.64'', 1024) ?s
      = send_block 65535 (''192.0.0.64'', 1024) ?s"
    using ack_not_rrq [OF server_inv_started p] p l unpack_ack [OF l] ack_block_recvfrom [OF l] a
    by (simp add: handle_tftp_def Let_def)
  show ?thesis
    unfolding h using send_block_cases [of ?s 65535 "(''192.0.0.64'', 1024)", OF server_inv_started K] t a
    by simp
qed

subsection \<open>Option parsing\<close>

lemma py_index_nth: "0 \<le> i \<Longrightarrow> i < int (length xs) \<Longrightarrow> py_index xs i = Inr (xs ! nat i)"
  by (simp add: py_index_def)

lemma opts_loop_pairs:
  "0 \<le> i \<Longrightarrow> opts_loop rt parts i opts = Inr (pairs_dict rt (drop (nat i) parts) opts)"
proof (induction rt parts i opts rule: opts_loop.induct)
  case (1 rt parts i opts)
  show ?case
  proof (cases "i < int (length parts) - 1")
    case True
    let ?k = "str_lower rt (bytes_decode rt (parts ! nat i))"
    let ?v = "bytes_decode rt (parts ! nat (i + 1))"
    let ?o = "if ?k \<noteq> [] then opts(?k \<mapsto> ?v) else opts"
    have i0: "py_index parts i = Inr (parts ! nat i)"
      using True "1.prems" by (simp add: py_index_nth)
    have i1: "py_index parts (i + 1) = Inr (parts ! nat (i + 1))"
      using True "1.prems" by (simp add: py_index_nth)
    have d: "drop (nat i) parts = parts ! nat i # parts ! nat (i + 1) # drop (nat (i + 2)) parts"
    proof -
      have a: "nat i < length parts" "Suc (nat i) < length parts" using True "1.prems" by linarith+
      have "drop (nat i) parts = parts ! nat i # drop (Suc (nat i)) parts"
        using a(1) by (simp add: Cons_nth_drop_Suc)
      also have "drop (Suc (nat i)) parts = parts ! Suc (nat i) # drop (Suc (Suc (nat i))) parts"
        using a(2) by (simp add: Cons_nth_drop_Suc)
      finally show ?thesis using "1.prems" by (simp add: nat_add_distrib)
    qed
    have ih: "opts_loop rt parts (i + 2) ?o = Inr (pairs_dict rt (drop (nat (i + 2)) parts) ?o)"
      using "1.IH" [OF True i0 i1 refl refl] "1.prems" by simp
    show ?thesis
      by (subst opts_loop.simps) (simp add: True i0 i1 d ih Let_def del: fun_upd_apply)
  next
    case False
    then have "length (drop (nat i) parts) \<le> 1" using "1.prems" by simp
    then have "pairs_dict rt (drop (nat i) parts) opts = opts"
      by (cases "drop (nat i) parts") auto
    then show ?thesis using False by (subst opts_loop.simps) simp
  qed
qed

lemma bytes_find_None: "sep \<noteq> [] \<Longrightarrow> (bytes_find sep xs = None) = (\<not> sublist sep xs)"
proof (induction xs)
  case Nil
  then show ?case by simp
next
  case (Cons x xs)
  then show ?case by (auto simp: sublist_Cons_right)
qed

lemma parse_options_pairs:
  "parse_options rt pkt =
     Inr (case bytes_find octet_marker pkt of
            None \<Rightarrow> Map.empty
          | Some j \<Rightarrow>
              pairs_dict rt (split_byte (CHR 0x00) (drop (j + length octet_marker) pkt)) Map.empty)"
  by (simp add: parse_options_def split_once_def py_index_def opts_loop_pairs split: option.split)

lemma pairs_dict_dom:
  "dom (pairs_dict rt ps m) \<subseteq> dom m \<union> (range (str_lower rt) - {[]})"
proof (induction rt ps m rule: pairs_dict.induct)
  case (1 rt p0 p1 rest opts)
  let ?k = "str_lower rt (bytes_decode rt p0)"
  let ?o = "if ?k \<noteq> [] then opts(?k \<mapsto> bytes_decode rt p1) else opts"
  have "dom ?o \<subseteq> dom opts \<union> (range (str_lower rt) - {[]})" by auto
  with "1.IH" have "dom (pairs_dict rt rest ?o) \<subseteq> dom opts \<union> (range (str_lower rt) - {[]})"
    by blast
  then show ?case by simp
qed simp_all

lemma pairs_dict_trailing:
  "even (length ps) \<Longrightarrow> pairs_dict rt (ps @ [p]) m = pairs_dict rt ps m"
proof (induction rt ps m rule: pairs_dict.induct)
  case (1 rt p0 p1 rest opts)
  then show ?case by (simp add: Let_def)
qed simp_all

lemma parse_options_request: "parse_options rt pkt = Inr (request_options rt pkt)"
  by (simp add: request_options_def parse_options_pairs)

subsection \<open>Read-Requests\<close>

lemmas eval_simps =
  octet_marker_def ascii_runtime_def ascii_decode_def ascii_lower_def ascii_lower_char_def
  char_of_def bit_Suc_0_iff ascii_int_def strip_def is_space_def is_digit_def digit_val_def
  recvfrom_def startswith_def started_def

lemma server_inv_data: "server_inv s \<Longrightarrow> (total_blocks s < 1) = (data s = [])"
proof -
  assume inv: "server_inv s"
  then have S: "0 < block_size s" by (simp add: server_inv_def)
  have "(total_blocks s \<le> 0) = (int (length (data s)) \<le> 0 * block_size s)"
    using inv blocks_le_iff [OF S, of "int (length (data s))" 0] by (simp add: server_inv_def)
  moreover have "(total_blocks s < 1) = (total_blocks s \<le> 0)" by auto
  ultimately show ?thesis by simp
qed

lemma start_transfer_cases:
  assumes "server_inv s"
  shows "start_transfer addr s =
     (if 65535 < total_blocks s then (Inl TFTPError, s)
      else if data s = [] then (Inr (), finished s)
      else (Inr (), sendto_tftp (DATA 1 (firmware_range s 0 (block_size s))) addr s))"
  using send_block_cases [OF assms, of 0 addr] server_inv_data [OF assms]
  by (simp add: start_transfer_def check_limits_def)

lemma send_oack_cases:
  "send_oack addr s =
     (if 65535 < total_blocks s then (Inl TFTPError, s)
      else (Inr (), sendto_tftp (OACK (block_size s)) addr s))"
  by (simp add: send_oack_def check_limits_def pack_H_def OP_OACK_def OACK_def
      char_of_numeral_simps)

lemma handle_tftp_rrq:
  assumes "startswith (recvfrom 65536 dgram) (rrq_prefix s)"
  shows "handle_tftp rt dgram addr s =
     (case usable_blksize rt (request_options rt (recvfrom 65536 dgram)) of
        None \<Rightarrow> start_transfer addr s
      | Some sz \<Rightarrow>
          if total_blocks (set_block_size sz s) \<le> 65535
          then (Inr (), sendto_tftp (OACK sz) addr (set_block_size sz s))
          else (Inl TFTPError, set_block_size sz s))"
proof -
  have b: "block_size (set_block_size sz s) = sz" for sz by (simp add: set_block_size_def)
  show ?thesis
    using assms
    by (simp add: handle_tftp_def Let_def parse_options_request usable_blksize_def
        send_oack_cases b split: option.split)
qed

subsection \<open>The handshake\<close>

text \<open>
  Claim C7, as amended. On the handshake port, a datagram equal to the 20-byte magic
  token is echoed byte for byte to the sender's address. Every other datagram of at
  most 20 bytes, and every longer datagram whose first 20 bytes are not the token,
  produces no reply. A longer datagram that begins with the token is read by
  \<^verbatim>\<open>recvfrom(20)\<close> as the token and is answered with the token. The handler never raises
  and changes nothing else.
\<close>

theorem handle_handshake_echo:
  "handle_handshake HANDSHAKE_BYTES addr s =
     (Inr (), s\<lparr>handshake_sock := handshake_sock s @ [(HANDSHAKE_BYTES, addr)]\<rparr>) \<and>
   (length dgram \<le> 20 \<and> dgram \<noteq> HANDSHAKE_BYTES \<longrightarrow>
      handle_handshake dgram addr s = (Inr (), s)) \<and>
   (take 20 dgram \<noteq> HANDSHAKE_BYTES \<longrightarrow> handle_handshake dgram addr s = (Inr (), s)) \<and>
   (take 20 dgram = HANDSHAKE_BYTES \<longrightarrow>
      handle_handshake dgram addr s =
        (Inr (), s\<lparr>handshake_sock := handshake_sock s @ [(HANDSHAKE_BYTES, addr)]\<rparr>))"
proof -
  have len: "length HANDSHAKE_BYTES = 20" by (simp add: HANDSHAKE_BYTES_def)
  have h: "handle_handshake d addr s =
      (if take 20 d = HANDSHAKE_BYTES
       then (Inr (), s\<lparr>handshake_sock := handshake_sock s @ [(HANDSHAKE_BYTES, addr)]\<rparr>)
       else (Inr (), s))" for d
    by (simp add: handle_handshake_def recvfrom_def Let_def)
  have short: "take 20 dgram = dgram" if "length dgram \<le> 20" using that by simp
  show ?thesis using len short by (auto simp: h)
qed

text \<open>The token is echoed; its first four bytes alone, and 20 bytes that differ from
  it in one letter, are not answered.\<close>

theorem handle_handshake_echo_witness:
  "handle_handshake HANDSHAKE_BYTES (''192.0.0.64'', 1024) (started ''abc'')
     = (Inr (), (started ''abc'')\<lparr>handshake_sock := [(HANDSHAKE_BYTES, (''192.0.0.64'', 1024))]\<rparr>) \<and>
   handle_handshake ''SWKH'' (''192.0.0.64'', 1024) (started ''abc'') = (Inr (), started ''abc'') \<and>
   handle_handshake (''SWKX'' @ replicate 16 (CHR 0x00)) (''192.0.0.64'', 1024) (started ''abc'')
     = (Inr (), started ''abc'')"
proof -
  have a: "length ''SWKH'' \<le> 20 \<and> ''SWKH'' \<noteq> HANDSHAKE_BYTES"
    by (simp add: HANDSHAKE_BYTES_def)
  have b: "take 20 (''SWKX'' @ replicate 16 (CHR 0x00)) \<noteq> HANDSHAKE_BYTES"
    by (simp add: HANDSHAKE_BYTES_def)
  show ?thesis
    using handle_handshake_echo [of "(''192.0.0.64'', 1024)" "started ''abc''" "''SWKH''"]
      handle_handshake_echo [of "(''192.0.0.64'', 1024)" "started ''abc''"
        "''SWKX'' @ replicate 16 (CHR 0x00)"] a b
    by (simp add: started_def)
qed

text \<open>
  Claim C7 as stated fails for a datagram longer than 20 bytes: the token followed by
  one more byte is not the token, and it is answered by the token.
\<close>

theorem handle_handshake_long_counterexample:
  "length (HANDSHAKE_BYTES @ ''X'') = 21 \<and>
   handle_handshake (HANDSHAKE_BYTES @ ''X'') (''192.0.0.64'', 1024) (started ''abc'')
     = (Inr (), (started ''abc'')\<lparr>handshake_sock := [(HANDSHAKE_BYTES, (''192.0.0.64'', 1024))]\<rparr>)"
  by (simp add: handle_handshake_def recvfrom_def Let_def HANDSHAKE_BYTES_def started_def)

subsection \<open>Read-Requests without a usable block size\<close>

text \<open>
  Claim C2, as amended. For every non-empty firmware whose stored block count is at
  most 65535, and every incoming datagram that starts with the request prefix and
  carries no usable \<open>blksize\<close> option, the engine sends exactly one packet, to the
  requester: the DATA packet with opcode 3 and block number 1 whose payload is the
  firmware bytes \<open>[0, S)\<close> for the current block size \<open>S\<close>; the block size stays as it is.
\<close>

theorem handle_tftp_plain_rrq:
  assumes "server_inv s"
    and "startswith (recvfrom 65536 dgram) (rrq_prefix s)"
    and "usable_blksize rt (request_options rt (recvfrom 65536 dgram)) = None"
    and "data s \<noteq> []"
    and "total_blocks s \<le> 65535"
  shows "handle_tftp rt dgram addr s =
           (Inr (), sendto_tftp (DATA 1 (firmware_range s 0 (block_size s))) addr s)"
  using handle_tftp_rrq [OF assms(2), of rt addr] start_transfer_cases [OF assms(1), of addr]
    assms(3-5)
  by simp

text \<open>The request for \<open>digicap.dav\<close> without options, on a firmware of 26 bytes.\<close>

theorem handle_tftp_plain_rrq_witness:
  "handle_tftp ascii_runtime ([CHR 0x00, CHR 0x01] @ ''digicap.dav'' @ octet_marker)
      (''192.0.0.64'', 1024) (started ''abcdefghijklmnopqrstuvwxyz'')
    = (Inr (), (started ''abcdefghijklmnopqrstuvwxyz'')
         \<lparr>tftp_sock := [([CHR 0x00, CHR 0x03, CHR 0x00, CHR 0x01] @ ''abcdefghijklmnopqrstuvwxyz'',
                          (''192.0.0.64'', 1024))]\<rparr>)"
proof -
  let ?s = "started ''abcdefghijklmnopqrstuvwxyz''"
  let ?d = "[CHR 0x00, CHR 0x01] @ ''digicap.dav'' @ octet_marker"
  have p: "startswith (recvfrom 65536 ?d) (rrq_prefix ?s)" by (simp add: eval_simps)
  have u: "usable_blksize ascii_runtime (request_options ascii_runtime (recvfrom 65536 ?d)) = None"
    by (simp add: usable_blksize_def request_options_def parse_options_pairs eval_simps)
  have n: "data ?s \<noteq> []" and t: "total_blocks ?s \<le> 65535" by (simp_all add: started_def)
  show ?thesis
    using handle_tftp_plain_rrq [OF server_inv_started p u n t, of "(''192.0.0.64'', 1024)"]
    by (simp add: DATA_def firmware_range_def sendto_tftp_def started_def octet_marker_def
        char_of_numeral_simps)
qed

text \<open>
  Claim C2 as stated fails for two firmware buffers. With \<open>512 * 65535 + 1\<close> bytes the
  block count at the default block size is 65536, \<^verbatim>\<open>_check_limits\<close> raises and nothing is
  sent. With the empty buffer the first slice is empty and nothing is sent either.
\<close>

theorem handle_tftp_plain_rrq_counterexample:
  "handle_tftp ascii_runtime ([CHR 0x00, CHR 0x01] @ ''digicap.dav'' @ octet_marker)
      (''192.0.0.64'', 1024) (started (replicate 33553921 (CHR 0x00)))
    = (Inl TFTPError, started (replicate 33553921 (CHR 0x00))) \<and>
   tftp_sock (started (replicate 33553921 (CHR 0x00))) = [] \<and>
   handle_tftp ascii_runtime ([CHR 0x00, CHR 0x01] @ ''digicap.dav'' @ octet_marker)
      (''192.0.0.64'', 1024) (started [])
    = (Inr (), started [])"
proof -
  let ?d = "[CHR 0x00, CHR 0x01] @ ''digicap.dav'' @ octet_marker"
  have p: "startswith (recvfrom 65536 ?d) (rrq_prefix (started fw))" for fw
    by (simp add: eval_simps)
  have u: "usable_blksize ascii_runtime (request_options ascii_runtime (recvfrom 65536 ?d)) = None"
    by (simp add: usable_blksize_def request_options_def parse_options_pairs eval_simps)
  have f: "finished (started []) = started []"
    by (simp add: finished_def started_def DEFAULT_BLOCK_SIZE_def)
  have big: "handle_tftp ascii_runtime ?d (''192.0.0.64'', 1024) (started (replicate 33553921 (CHR 0x00)))
      = (Inl TFTPError, started (replicate 33553921 (CHR 0x00)))"
    using handle_tftp_rrq [where s = "started (replicate 33553921 (CHR 0x00))"
          and rt = ascii_runtime and addr = "(''192.0.0.64'', 1024)", OF p]
      start_transfer_cases [where s = "started (replicate 33553921 (CHR 0x00))"
          and addr = "(''192.0.0.64'', 1024)", OF server_inv_started] u
    by (simp add: started_def)
  have none: "handle_tftp ascii_runtime ?d (''192.0.0.64'', 1024) (started []) = (Inr (), started [])"
    using handle_tftp_rrq [where s = "started []"
          and rt = ascii_runtime and addr = "(''192.0.0.64'', 1024)", OF p]
      start_transfer_cases [where s = "started []"
          and addr = "(''192.0.0.64'', 1024)", OF server_inv_started] u f
    by (simp add: started_def)
  show ?thesis using big none by (simp add: started_def)
qed

subsection \<open>Block size negotiation\<close>

text \<open>
  Claim C4, as amended. For every Read-Request that carries a \<open>blksize\<close> option whose
  value is an integer \<open>sz\<close> in \<open>[8, 65464]\<close>, the engine adopts \<open>sz\<close> as the block size and
  recomputes the block count. When the recomputed count is at most 65535 it sends
  exactly one packet, to the requester: the OACK packet (opcode 6, \<open>blksize\<close>, \<open>sz\<close>), and
  no DATA packet. When the recomputed count exceeds 65535 it raises \<^verbatim>\<open>TFTPError\<close> and
  sends nothing.
\<close>

theorem handle_tftp_blksize:
  assumes "startswith (recvfrom 65536 dgram) (rrq_prefix s)"
    and "usable_blksize rt (request_options rt (recvfrom 65536 dgram)) = Some sz"
  shows "8 \<le> sz \<and> sz \<le> 65464 \<and>
         handle_tftp rt dgram addr s =
           (if total_blocks (set_block_size sz s) \<le> 65535
            then (Inr (), sendto_tftp (OACK sz) addr (set_block_size sz s))
            else (Inl TFTPError, set_block_size sz s))"
proof -
  have "8 \<le> sz \<and> sz \<le> 65464"
    using assms(2) by (auto simp: usable_blksize_def split: option.splits if_splits)
  then show ?thesis
    using handle_tftp_rrq [OF assms(1), of rt addr] assms(2) by simp
qed

text \<open>The request with \<open>blksize=1024\<close> on the firmware of 1500 bytes: 2 blocks, and the
  OACK naming 1024.\<close>

theorem handle_tftp_blksize_witness:
  "handle_tftp ascii_runtime
      ([CHR 0x00, CHR 0x01] @ ''digicap.dav'' @ octet_marker @ ''blksize'' @ [CHR 0x00] @ ''1024'' @ [CHR 0x00])
      (''192.0.0.64'', 1024) (started (replicate 1500 (CHR 0x00)))
    = (Inr (), (started (replicate 1500 (CHR 0x00)))
         \<lparr>block_size := 1024, total_blocks := 2,
          tftp_sock := [([CHR 0x00, CHR 0x06] @ ''blksize'' @ [CHR 0x00] @ ''1024'' @ [CHR 0x00],
                         (''192.0.0.64'', 1024))]\<rparr>)"
proof -
  let ?s = "started (replicate 1500 (CHR 0x00))"
  let ?d = "[CHR 0x00, CHR 0x01] @ ''digicap.dav'' @ octet_marker @ ''blksize'' @ [CHR 0x00] @ ''1024'' @ [CHR 0x00]"
  have p: "startswith (recvfrom 65536 ?d) (rrq_prefix ?s)" by (simp add: eval_simps)
  have u: "usable_blksize ascii_runtime (request_options ascii_runtime (recvfrom 65536 ?d)) = Some 1024"
    by (simp add: usable_blksize_def request_options_def parse_options_pairs eval_simps)
  have o: "OACK 1024 = [CHR 0x00, CHR 0x06] @ ''blksize'' @ [CHR 0x00] @ ''1024'' @ [CHR 0x00]"
    by (simp add: OACK_def str_int_def decimal.simps char_of_def bit_Suc_0_iff)
  show ?thesis
    using handle_tftp_blksize [OF p u, of "(''192.0.0.64'', 1024)"] o
    by (simp add: set_block_size_def sendto_tftp_def started_def)
qed

text \<open>
  Claim C4 as stated fails when the accepted block size gives more than 65535 blocks:
  with \<open>blksize=8\<close> on a firmware of \<open>8 * 65535 + 1\<close> bytes the block size is adopted, the
  count is 65536, \<^verbatim>\<open>_send_oack\<close> raises in \<^verbatim>\<open>_check_limits\<close> and no OACK is sent.
\<close>

theorem handle_tftp_blksize_counterexample:
  "handle_tftp ascii_runtime
      ([CHR 0x00, CHR 0x01] @ ''digicap.dav'' @ octet_marker @ ''blksize'' @ [CHR 0x00] @ ''8'' @ [CHR 0x00])
      (''192.0.0.64'', 1024) (started (replicate 524281 (CHR 0x00)))
    = (Inl TFTPError,
       (started (replicate 524281 (CHR 0x00)))\<lparr>block_size := 8, total_blocks := 65536\<rparr>) \<and>
   tftp_sock (started (replicate 524281 (CHR 0x00))) = []"
proof -
  let ?s = "started (replicate 524281 (CHR 0x00))"
  let ?d = "[CHR 0x00, CHR 0x01] @ ''digicap.dav'' @ octet_marker @ ''blksize'' @ [CHR 0x00] @ ''8'' @ [CHR 0x00]"
  have p: "startswith (recvfrom 65536 ?d) (rrq_prefix ?s)" by (simp add: eval_simps)
  have u: "usable_blksize ascii_runtime (request_options ascii_runtime (recvfrom 65536 ?d)) = Some 8"
    by (simp add: usable_blksize_def request_options_def parse_options_pairs eval_simps)
  show ?thesis
    using handle_tftp_rrq [OF p, of ascii_runtime "(''192.0.0.64'', 1024)"] u
    by (simp add: set_block_size_def started_def)
qed

subsection \<open>Block sizes that are refused\<close>

text \<open>
  Claim C6, as amended. For every Read-Request that carries a \<open>blksize\<close> option whose
  value is not an integer or lies outside \<open>[8, 65464]\<close>, the option is ignored and the
  request proceeds exactly as if no option were given: the handler does what it does
  for any matching request without a \<open>blksize\<close> option. That is the limit check, with
  \<^verbatim>\<open>TFTPError\<close> and nothing sent when the stored block count exceeds 65535, and then,
  for a non-empty firmware, exactly one DATA packet for block 1 at the current block
  size, which is not changed, and no OACK.
\<close>

theorem handle_tftp_bad_blksize:
  assumes "server_inv s"
    and "startswith (recvfrom 65536 dgram) (rrq_prefix s)"
    and "request_options rt (recvfrom 65536 dgram) ''blksize'' = Some v"
    and "int_of_str rt v = None \<or> (\<exists>n. int_of_str rt v = Some n \<and> (n < 8 \<or> 65464 < n))"
  shows "handle_tftp rt dgram addr s = start_transfer addr s \<and>
         (\<forall>d. startswith (recvfrom 65536 d) (rrq_prefix s) \<and>
               request_options rt (recvfrom 65536 d) ''blksize'' = None \<longrightarrow>
               handle_tftp rt d addr s = handle_tftp rt dgram addr s) \<and>
         (data s \<noteq> [] \<and> total_blocks s \<le> 65535 \<longrightarrow>
            handle_tftp rt dgram addr s =
              (Inr (), sendto_tftp (DATA 1 (firmware_range s 0 (block_size s))) addr s)) \<and>
         (65535 < total_blocks s \<longrightarrow> handle_tftp rt dgram addr s = (Inl TFTPError, s))"
proof -
  have u: "usable_blksize rt (request_options rt (recvfrom 65536 dgram)) = None"
    using assms(3,4) by (auto simp: usable_blksize_def)
  have h: "handle_tftp rt dgram addr s = start_transfer addr s"
    using handle_tftp_rrq [OF assms(2), of rt addr] u by simp
  have same: "handle_tftp rt d addr s = start_transfer addr s"
    if "startswith (recvfrom 65536 d) (rrq_prefix s)"
      and "request_options rt (recvfrom 65536 d) ''blksize'' = None" for d
    using handle_tftp_rrq [OF that(1), of rt addr] that(2) by (simp add: usable_blksize_def)
  show ?thesis
    using h same start_transfer_cases [OF assms(1), of addr] by simp
qed

text \<open>The requests with \<open>blksize=4\<close> and with \<open>blksize=big\<close> on a firmware of 26 bytes are
  answered as the request without options is.\<close>

theorem handle_tftp_bad_blksize_witness:
  "handle_tftp ascii_runtime
      ([CHR 0x00, CHR 0x01] @ ''digicap.dav'' @ octet_marker @ ''blksize'' @ [CHR 0x00] @ ''4'' @ [CHR 0x00])
      (''192.0.0.64'', 1024) (started ''abcdefghijklmnopqrstuvwxyz'')
    = (Inr (), (started ''abcdefghijklmnopqrstuvwxyz'')
         \<lparr>tftp_sock := [([CHR 0x00, CHR 0x03, CHR 0x00, CHR 0x01] @ ''abcdefghijklmnopqrstuvwxyz'',
                          (''192.0.0.64'', 1024))]\<rparr>) \<and>
   handle_tftp ascii_runtime
      ([CHR 0x00, CHR 0x01] @ ''digicap.dav'' @ octet_marker @ ''blksize'' @ [CHR 0x00] @ ''big'' @ [CHR 0x00])
      (''192.0.0.64'', 1024) (started ''abcdefghijklmnopqrstuvwxyz'')
    = handle_tftp ascii_runtime ([CHR 0x00, CHR 0x01] @ ''digicap.dav'' @ octet_marker)
      (''192.0.0.64'', 1024) (started ''abcdefghijklmnopqrstuvwxyz'')"
proof -
  let ?s = "started ''abcdefghijklmnopqrstuvwxyz''"
  let ?d4 = "[CHR 0x00, CHR 0x01] @ ''digicap.dav'' @ octet_marker @ ''blksize'' @ [CHR 0x00] @ ''4'' @ [CHR 0x00]"
  let ?db = "[CHR 0x00, CHR 0x01] @ ''digicap.dav'' @ octet_marker @ ''blksize'' @ [CHR 0x00] @ ''big'' @ [CHR 0x00]"
  let ?d0 = "[CHR 0x00, CHR 0x01] @ ''digicap.dav'' @ octet_marker"
  have p4: "startswith (recvfrom 65536 ?d4) (rrq_prefix ?s)"
    and pb: "startswith (recvfrom 65536 ?db) (rrq_prefix ?s)"
    and p0: "startswith (recvfrom 65536 ?d0) (rrq_prefix ?s)"
    by (simp_all add: eval_simps)
  have o4: "request_options ascii_runtime (recvfrom 65536 ?d4) ''blksize'' = Some ''4''"
    and ob: "request_options ascii_runtime (recvfrom 65536 ?db) ''blksize'' = Some ''big''"
    and o0: "request_options ascii_runtime (recvfrom 65536 ?d0) ''blksize'' = None"
    by (simp_all add: request_options_def parse_options_pairs eval_simps)
  have i4: "int_of_str ascii_runtime ''4'' = None \<or>
      (\<exists>n. int_of_str ascii_runtime ''4'' = Some n \<and> (n < 8 \<or> 65464 < n))"
    and ib: "int_of_str ascii_runtime ''big'' = None \<or>
      (\<exists>n. int_of_str ascii_runtime ''big'' = Some n \<and> (n < 8 \<or> 65464 < n))"
    by (simp_all add: eval_simps)
  have n: "data ?s \<noteq> [] \<and> total_blocks ?s \<le> 65535" by (simp add: started_def)
  have 1: "handle_tftp ascii_runtime ?d4 (''192.0.0.64'', 1024) ?s =
      (Inr (), sendto_tftp (DATA 1 (firmware_range ?s 0 (block_size ?s))) (''192.0.0.64'', 1024) ?s)"
    using handle_tftp_bad_blksize [OF server_inv_started p4 o4 i4, of "(''192.0.0.64'', 1024)"] n
    by blast
  have 2: "handle_tftp ascii_runtime ?d0 (''192.0.0.64'', 1024) ?s =
      handle_tftp ascii_runtime ?db (''192.0.0.64'', 1024) ?s"
    using handle_tftp_bad_blksize [OF server_inv_started pb ob ib, of "(''192.0.0.64'', 1024)"] p0 o0
    by blast
  have 3: "sendto_tftp (DATA 1 (firmware_range ?s 0 (block_size ?s))) (''192.0.0.64'', 1024) ?s =
      ?s\<lparr>tftp_sock := [([CHR 0x00, CHR 0x03, CHR 0x00, CHR 0x01] @ ''abcdefghijklmnopqrstuvwxyz'',
                          (''192.0.0.64'', 1024))]\<rparr>"
    by (simp add: DATA_def firmware_range_def sendto_tftp_def started_def char_of_numeral_simps)
  show ?thesis unfolding 1 2 3 by simp
qed

text \<open>
  Claim C6 as stated promises an immediate DATA block 1. With \<open>blksize=4\<close> on a firmware
  of \<open>512 * 65535 + 1\<close> bytes the option is ignored, the limit check raises and nothing
  is sent.
\<close>

theorem handle_tftp_bad_blksize_counterexample:
  "handle_tftp ascii_runtime
      ([CHR 0x00, CHR 0x01] @ ''digicap.dav'' @ octet_marker @ ''blksize'' @ [CHR 0x00] @ ''4'' @ [CHR 0x00])
      (''192.0.0.64'', 1024) (started (replicate 33553921 (CHR 0x00)))
    = (Inl TFTPError, started (replicate 33553921 (CHR 0x00))) \<and>
   tftp_sock (started (replicate 33553921 (CHR 0x00))) = []"
proof -
  let ?s = "started (replicate 33553921 (CHR 0x00))"
  let ?d = "[CHR 0x00, CHR 0x01] @ ''digicap.dav'' @ octet_marker @ ''blksize'' @ [CHR 0x00] @ ''4'' @ [CHR 0x00]"
  have p: "startswith (recvfrom 65536 ?d) (rrq_prefix ?s)" by (simp add: eval_simps)
  have u: "usable_blksize ascii_runtime (request_options ascii_runtime (recvfrom 65536 ?d)) = None"
    by (simp add: usable_blksize_def request_options_def parse_options_pairs eval_simps)
  show ?thesis
    using handle_tftp_rrq [OF p, of ascii_runtime "(''192.0.0.64'', 1024)"] u
      start_transfer_cases [where s = ?s and addr = "(''192.0.0.64'', 1024)", OF server_inv_started]
    by (simp add: started_def)
qed

subsection \<open>Option parsing is total\<close>

lemma pairs_dict_ran:
  "ran (pairs_dict rt ps m) \<subseteq> ran m \<union> range (bytes_decode rt)"
proof (induction rt ps m rule: pairs_dict.induct)
  case (1 rt p0 p1 rest opts)
  let ?k = "str_lower rt (bytes_decode rt p0)"
  let ?o = "if ?k \<noteq> [] then opts(?k \<mapsto> bytes_decode rt p1) else opts"
  have "ran ?o \<subseteq> ran opts \<union> range (bytes_decode rt)" by (auto simp: ran_def)
  with "1.IH" have "ran (pairs_dict rt rest ?o) \<subseteq> ran opts \<union> range (bytes_decode rt)"
    by blast
  then show ?case by simp
qed simp_all

lemma request_options_dom:
  "dom (request_options rt pkt) \<subseteq> range (str_lower rt) - {[]}"
  using pairs_dict_dom [of rt _ Map.empty]
  by (auto simp: request_options_def parse_options_pairs split: option.splits)

lemma request_options_ran:
  "ran (request_options rt pkt) \<subseteq> range (bytes_decode rt)"
  using pairs_dict_ran [of rt _ Map.empty]
  by (auto simp: request_options_def parse_options_pairs split: option.splits)

lemma request_options_no_marker:
  "\<not> sublist octet_marker pkt \<Longrightarrow> request_options rt pkt = Map.empty"
proof -
  assume "\<not> sublist octet_marker pkt"
  then have "bytes_find octet_marker pkt = None"
    using bytes_find_None [of octet_marker pkt] by (simp add: octet_marker_def)
  then show ?thesis by (simp add: request_options_def parse_options_pairs)
qed

text \<open>
  Claim C10. For every byte string \<^verbatim>\<open>_parse_options\<close> returns a dictionary and raises
  nothing, whatever the decoder and the lowering of the runtime compute. A packet
  without the \<^verbatim>\<open>\x00octet\x00\<close> marker gives the empty dictionary; the empty name is never
  a key; every key is a lowered text and every value a decoded byte string, so
  undecodable bytes cost no more than what the decoder drops; with an idempotent
  lowering every key is its own lowering. A last part without a partner is dropped:
  the loop gives the same dictionary with and without it.
\<close>

theorem parse_options_total:
  "(\<exists>m. parse_options rt pkt = Inr m \<and>
        (\<not> sublist octet_marker pkt \<longrightarrow> m = Map.empty) \<and>
        [] \<notin> dom m \<and>
        (\<forall>k\<in>dom m. \<exists>t. k = str_lower rt t) \<and>
        (\<forall>v\<in>ran m. \<exists>b. v = bytes_decode rt b) \<and>
        ((\<forall>t. str_lower rt (str_lower rt t) = str_lower rt t) \<longrightarrow>
           (\<forall>k\<in>dom m. str_lower rt k = k))) \<and>
   (\<forall>ps p. even (length ps) \<longrightarrow>
        opts_loop rt (ps @ [p]) 0 Map.empty = opts_loop rt ps 0 Map.empty)"
proof -
  let ?m = "request_options rt pkt"
  have d: "dom ?m \<subseteq> range (str_lower rt) - {[]}" by (rule request_options_dom)
  have r: "ran ?m \<subseteq> range (bytes_decode rt)" by (rule request_options_ran)
  have 1: "parse_options rt pkt = Inr ?m" by (rule parse_options_request)
  have 2: "\<not> sublist octet_marker pkt \<longrightarrow> ?m = Map.empty"
    using request_options_no_marker by blast
  have 3: "[] \<notin> dom ?m" using d by blast
  have 4: "\<forall>k\<in>dom ?m. \<exists>t. k = str_lower rt t" using d by blast
  have 5: "\<forall>v\<in>ran ?m. \<exists>b. v = bytes_decode rt b" using r by blast
  have 6: "(\<forall>t. str_lower rt (str_lower rt t) = str_lower rt t) \<longrightarrow>
           (\<forall>k\<in>dom ?m. str_lower rt k = k)"
    using 4 by metis
  have 7: "\<forall>ps p. even (length ps) \<longrightarrow>
        opts_loop rt (ps @ [p]) 0 Map.empty = opts_loop rt ps 0 Map.empty"
    by (simp add: opts_loop_pairs pairs_dict_trailing)
  show ?thesis using 1 2 3 4 5 6 7 by blast
qed

text \<open>A request whose options are \<open>BlkSize\<close> behind an undecodable byte with the value
  1024, an empty name with the value \<open>x\<close>, and the single name \<open>tsize\<close>: the dictionary
  holds \<open>blksize\<close> alone. A request in the mode \<open>netascii\<close> has no marker.\<close>

theorem parse_options_total_witness:
  "parse_options ascii_runtime
     ([CHR 0x00, CHR 0x01] @ ''digicap.dav'' @ octet_marker @ [CHR 0xFF] @ ''BlkSize'' @ [CHR 0x00]
        @ ''1024'' @ [CHR 0x00, CHR 0x00] @ ''x'' @ [CHR 0x00] @ ''tsize'')
     = Inr [''blksize'' \<mapsto> ''1024''] \<and>
   parse_options ascii_runtime ([CHR 0x00, CHR 0x01] @ ''digicap.dav'' @ [CHR 0x00] @ ''netascii'' @ [CHR 0x00])
     = Inr Map.empty \<and>
   opts_loop ascii_runtime [''blksize'', ''1024'', ''tsize''] 0 Map.empty
     = opts_loop ascii_runtime [''blksize'', ''1024''] 0 Map.empty \<and>
   str_lower ascii_runtime ''blksize'' = ''blksize''"
proof -
  let ?d = "[CHR 0x00, CHR 0x01] @ ''digicap.dav'' @ octet_marker @ [CHR 0xFF] @ ''BlkSize'' @ [CHR 0x00]
        @ ''1024'' @ [CHR 0x00, CHR 0x00] @ ''x'' @ [CHR 0x00] @ ''tsize''"
  let ?n = "[CHR 0x00, CHR 0x01] @ ''digicap.dav'' @ [CHR 0x00] @ ''netascii'' @ [CHR 0x00]"
  have e: "parse_options ascii_runtime ?d = Inr [''blksize'' \<mapsto> ''1024'']"
    by (simp add: parse_options_pairs eval_simps)
  have idem: "\<forall>t. str_lower ascii_runtime (str_lower ascii_runtime t) = str_lower ascii_runtime t"
  proof -
    have "ascii_lower_char (ascii_lower_char c) = ascii_lower_char c" for c
    proof -
      have "(of_char c :: nat) < 256" by simp
      then show ?thesis by (auto simp: ascii_lower_char_def Let_def)
    qed
    then show ?thesis by (simp add: ascii_runtime_def ascii_lower_def)
  qed
  have nm: "\<not> sublist octet_marker ?n"
    using bytes_find_None [of octet_marker ?n] by (simp add: octet_marker_def)
  have ev: "even (length [''blksize'', ''1024''])" by simp
  from parse_options_total [of ascii_runtime ?d] idem e
  have low: "str_lower ascii_runtime ''blksize'' = ''blksize''" by auto
  from parse_options_total [of ascii_runtime ?n] nm
  have emp: "parse_options ascii_runtime ?n = Inr Map.empty" by auto
  from parse_options_total [of ascii_runtime ?d] ev
  have tr: "opts_loop ascii_runtime ([''blksize'', ''1024''] @ [''tsize'']) 0 Map.empty
     = opts_loop ascii_runtime [''blksize'', ''1024''] 0 Map.empty" by blast
  show ?thesis using e low emp tr by simp
qed

subsection \<open>The overflow error at the entry point\<close>

text \<open>
  Claim C8 evaluated. The firmware of \<open>512 * 65535 + 1\<close> bytes is served and the
  request for \<open>digicap.dav\<close> arrives: \<^verbatim>\<open>_check_limits\<close> raises \<^verbatim>\<open>TFTPError\<close> inside the loop of
  \<^verbatim>\<open>run\<close>, whose handler for \<^verbatim>\<open>Exception\<close> prints it as an unexpected error and ends the
  loop; \<^verbatim>\<open>run\<close> returns, and the process ends with the exit status 0, no DATA sent. The
  handler of the entry point for \<^verbatim>\<open>TFTPError\<close>, which prints a setup error and exits with
  status 1, is reached from \<^verbatim>\<open>__init__\<close> only, as for a port in use.
\<close>

theorem main_overflow_exit_status:
  "main ascii_runtime (Contents (replicate 33553921 (CHR 0x00))) Bound Bound ''digicap.dav''
     [TftpReadable ([CHR 0x00, CHR 0x01] @ ''digicap.dav'' @ octet_marker) (''192.0.0.64'', 1024)]
     = Some ([UnexpectedError TFTPError, ServerStopped, Goodbye], 0, []) \<and>
   main ascii_runtime (Contents (replicate 33553921 (CHR 0x00))) EADDRINUSE Bound ''digicap.dav'' []
     = Some ([SetupError], 1, [])"
proof -
  let ?s = "started (replicate 33553921 (CHR 0x00))"
  let ?d = "[CHR 0x00, CHR 0x01] @ ''digicap.dav'' @ octet_marker"
  have p: "startswith (recvfrom 65536 ?d) (rrq_prefix ?s)" by (simp add: eval_simps)
  have u: "usable_blksize ascii_runtime (request_options ascii_runtime (recvfrom 65536 ?d)) = None"
    by (simp add: usable_blksize_def request_options_def parse_options_pairs eval_simps)
  have t: "65535 < total_blocks ?s" by (simp add: started_def)
  have h: "handle_tftp ascii_runtime ?d (''192.0.0.64'', 1024) ?s = (Inl TFTPError, ?s)"
    using handle_tftp_rrq [OF p, of ascii_runtime "(''192.0.0.64'', 1024)"] u t
      start_transfer_cases [where s = ?s and addr = "(''192.0.0.64'', 1024)", OF server_inv_started]
    by simp
  have r: "run ascii_runtime [TftpReadable ?d (''192.0.0.64'', 1024)] ?s
      = Some ([UnexpectedError TFTPError, ServerStopped], ?s)"
    using h by (simp add: run_def)
  have 1: "main ascii_runtime (Contents (replicate 33553921 (CHR 0x00))) Bound Bound ''digicap.dav''
     [TftpReadable ?d (''192.0.0.64'', 1024)]
     = Some ([UnexpectedError TFTPError, ServerStopped, Goodbye], 0, [])"
    using r by (simp add: main_def init_started) (simp add: started_def)
  have 2: "main ascii_runtime (Contents (replicate 33553921 (CHR 0x00))) EADDRINUSE Bound ''digicap.dav'' []
     = Some ([SetupError], 1, [])"
    by (simp add: main_def init_def pack_H_def OP_RRQ_def bind_sock_def)
  show ?thesis using 1 2 by simp
qed

subsection \<open>The handlers keep the relation between block size and block count\<close>

lemma server_inv_start_transfer: "server_inv s \<Longrightarrow> server_inv (snd (start_transfer addr s))"
  using server_inv_finished [of s]
  by (simp add: start_transfer_cases) (simp add: server_inv_def sendto_tftp_def)

lemma server_inv_handle_tftp:
  assumes "server_inv s"
  shows "server_inv (snd (handle_tftp rt dgram addr s))"
proof (cases "startswith (recvfrom 65536 dgram) (rrq_prefix s)")
  case True
  show ?thesis
  proof (cases "usable_blksize rt (request_options rt (recvfrom 65536 dgram))")
    case None
    then show ?thesis
      using handle_tftp_rrq [OF True, of rt addr] server_inv_start_transfer [OF assms, of addr]
      by simp
  next
    case (Some sz)
    then have "0 < sz" by (auto simp: usable_blksize_def split: option.splits if_splits)
    then have "server_inv (set_block_size sz s)" using assms by (rule server_inv_set_block_size [rotated])
    then show ?thesis
      using handle_tftp_rrq [OF True, of rt addr] Some
      by (simp add: server_inv_def sendto_tftp_def)
  qed
next
  case False
  show ?thesis
  proof (cases "startswith (recvfrom 65536 dgram) ACK_PREFIX \<and> 4 \<le> length (recvfrom 65536 dgram)")
    case True
    then have l: "4 \<le> length (recvfrom 65536 dgram)" by simp
    have K: "0 \<le> ack_block (recvfrom 65536 dgram)" using ack_block_bounds by simp
    have "handle_tftp rt dgram addr s = send_block (ack_block (recvfrom 65536 dgram)) addr s"
      using False True unpack_ack [OF l] by (simp add: handle_tftp_def Let_def)
    then show ?thesis
      using send_block_cases [OF assms K, of addr] server_inv_finished [OF assms] assms
      by (simp add: server_inv_def sendto_tftp_def)
  next
    case no: False
    then show ?thesis using False assms by (auto simp: handle_tftp_def Let_def)
  qed
qed

lemma server_inv_handle_handshake:
  "server_inv s \<Longrightarrow> server_inv (snd (handle_handshake dgram addr s))"
  by (simp add: handle_handshake_def Let_def server_inv_def)

lemma reachable_server_inv: "reachable rt s \<Longrightarrow> server_inv s"
  by (induction rule: reachable.induct)
    (simp_all add: server_inv_init server_inv_handle_handshake server_inv_handle_tftp)

lemma server_inv_run_loop:
  "server_inv s \<Longrightarrow> run_loop rt evs s = Some (msgs, s') \<Longrightarrow> server_inv s'"
proof (induction rt evs s rule: run_loop.induct)
  case (3 rt dgram addr evs s)
  then show ?case
    using server_inv_handle_handshake [of s dgram addr]
    by (auto split: prod.splits sum.splits)
next
  case (4 rt dgram addr evs s)
  then show ?case
    using server_inv_handle_tftp [of s rt dgram addr]
    by (auto split: prod.splits sum.splits)
qed simp_all

subsection \<open>The scenarios of the specification\<close>

text \<open>
  The two transfers that the specification walks through, run through the loop of
  \<^verbatim>\<open>run\<close> until the user's interrupt. With a firmware of 1500 bytes at the default block
  size: the request is answered by block 1 with 512 bytes, the Acknowledgments of
  blocks 1 and 2 by blocks 2 and 3 with 512 and 476 bytes, the Acknowledgment of
  block 3 by nothing.
\<close>

lemma scenario_default_block_size:
  "run_loop ascii_runtime
     [TftpReadable ([CHR 0x00, CHR 0x01] @ ''digicap.dav'' @ octet_marker) (''192.0.0.64'', 1024),
      TftpReadable [CHR 0x00, CHR 0x04, CHR 0x00, CHR 0x01] (''192.0.0.64'', 1024),
      TftpReadable [CHR 0x00, CHR 0x04, CHR 0x00, CHR 0x02] (''192.0.0.64'', 1024),
      TftpReadable [CHR 0x00, CHR 0x04, CHR 0x00, CHR 0x03] (''192.0.0.64'', 1024),
      KeyboardInterrupt]
     (started (replicate 1500 (CHR 0x00)))
   = Some ([Interrupted],
       (started (replicate 1500 (CHR 0x00)))
         \<lparr>tftp_sock :=
            [(DATA 1 (replicate 512 (CHR 0x00)), (''192.0.0.64'', 1024)),
             (DATA 2 (replicate 512 (CHR 0x00)), (''192.0.0.64'', 1024)),
             (DATA 3 (replicate 476 (CHR 0x00)), (''192.0.0.64'', 1024))]\<rparr>)"
proof -
  let ?a = "(''192.0.0.64'', 1024) :: addr"
  let ?s0 = "started (replicate 1500 (CHR 0x00))"
  let ?s1 = "?s0\<lparr>tftp_sock := [(DATA 1 (replicate 512 (CHR 0x00)), ?a)]\<rparr>"
  let ?s2 = "?s0\<lparr>tftp_sock := [(DATA 1 (replicate 512 (CHR 0x00)), ?a),
                               (DATA 2 (replicate 512 (CHR 0x00)), ?a)]\<rparr>"
  let ?s3 = "?s0\<lparr>tftp_sock := [(DATA 1 (replicate 512 (CHR 0x00)), ?a),
                               (DATA 2 (replicate 512 (CHR 0x00)), ?a),
                               (DATA 3 (replicate 476 (CHR 0x00)), ?a)]\<rparr>"
  let ?d = "[CHR 0x00, CHR 0x01] @ ''digicap.dav'' @ octet_marker"
  have inv: "server_inv ?s0" "server_inv ?s1" "server_inv ?s2" "server_inv ?s3"
    by (simp_all add: server_inv_def started_def)
  have p: "startswith (recvfrom 65536 ?d) (rrq_prefix ?s0)" by (simp add: eval_simps)
  have u: "usable_blksize ascii_runtime (request_options ascii_runtime (recvfrom 65536 ?d)) = None"
    by (simp add: usable_blksize_def request_options_def parse_options_pairs eval_simps)
  have 1: "handle_tftp ascii_runtime ?d ?a ?s0 = (Inr (), ?s1)"
    using handle_tftp_rrq [OF p, of ascii_runtime ?a] u start_transfer_cases [OF inv(1), of ?a]
    by (simp add: started_def sendto_tftp_def firmware_range_def)
  have 2: "handle_tftp ascii_runtime [CHR 0x00, CHR 0x04, CHR 0x00, CHR 0x01] ?a ?s1 = (Inr (), ?s2)"
    using handle_tftp_ack_eval [OF inv(2), of ascii_runtime "CHR 0x00" "CHR 0x01" ?a]
      send_block_cases [OF inv(2), of 1 ?a]
    by (simp add: started_def sendto_tftp_def firmware_range_def)
  have 3: "handle_tftp ascii_runtime [CHR 0x00, CHR 0x04, CHR 0x00, CHR 0x02] ?a ?s2 = (Inr (), ?s3)"
    using handle_tftp_ack_eval [OF inv(3), of ascii_runtime "CHR 0x00" "CHR 0x02" ?a]
      send_block_cases [OF inv(3), of 2 ?a]
    by (simp add: started_def sendto_tftp_def firmware_range_def)
  have 4: "handle_tftp ascii_runtime [CHR 0x00, CHR 0x04, CHR 0x00, CHR 0x03] ?a ?s3 = (Inr (), ?s3)"
    using handle_tftp_ack_eval [OF inv(4), of ascii_runtime "CHR 0x00" "CHR 0x03" ?a]
      send_block_cases [OF inv(4), of 3 ?a]
    by (simp add: started_def finished_def DEFAULT_BLOCK_SIZE_def)
  show ?thesis
    using 1 2 3 4 by (simp add: started_def)
qed

text \<open>With \<open>blksize=2000\<close>: the request is answered by the OACK naming 2000, the
  Acknowledgment of block 0 by block 1 with all 1500 bytes, the Acknowledgment of
  block 1 by nothing, and the block size is 512 again.\<close>

lemma scenario_blksize_2000:
  "run_loop ascii_runtime
     [TftpReadable ([CHR 0x00, CHR 0x01] @ ''digicap.dav'' @ octet_marker
                      @ ''blksize'' @ [CHR 0x00] @ ''2000'' @ [CHR 0x00]) (''192.0.0.64'', 1024),
      TftpReadable [CHR 0x00, CHR 0x04, CHR 0x00, CHR 0x00] (''192.0.0.64'', 1024),
      TftpReadable [CHR 0x00, CHR 0x04, CHR 0x00, CHR 0x01] (''192.0.0.64'', 1024),
      KeyboardInterrupt]
     (started (replicate 1500 (CHR 0x00)))
   = Some ([Interrupted],
       (started (replicate 1500 (CHR 0x00)))
         \<lparr>tftp_sock :=
            [(OACK 2000, (''192.0.0.64'', 1024)),
             (DATA 1 (replicate 1500 (CHR 0x00)), (''192.0.0.64'', 1024))]\<rparr>)"
proof -
  let ?a = "(''192.0.0.64'', 1024) :: addr"
  let ?s0 = "started (replicate 1500 (CHR 0x00))"
  let ?s1 = "?s0\<lparr>block_size := 2000, total_blocks := 1, tftp_sock := [(OACK 2000, ?a)]\<rparr>"
  let ?s2 = "?s0\<lparr>block_size := 2000, total_blocks := 1,
                 tftp_sock := [(OACK 2000, ?a), (DATA 1 (replicate 1500 (CHR 0x00)), ?a)]\<rparr>"
  let ?s3 = "?s0\<lparr>tftp_sock := [(OACK 2000, ?a), (DATA 1 (replicate 1500 (CHR 0x00)), ?a)]\<rparr>"
  let ?d = "[CHR 0x00, CHR 0x01] @ ''digicap.dav'' @ octet_marker
              @ ''blksize'' @ [CHR 0x00] @ ''2000'' @ [CHR 0x00]"
  have inv: "server_inv ?s0" "server_inv ?s1" "server_inv ?s2"
    by (simp_all add: server_inv_def started_def)
  have p: "startswith (recvfrom 65536 ?d) (rrq_prefix ?s0)" by (simp add: eval_simps)
  have u: "usable_blksize ascii_runtime (request_options ascii_runtime (recvfrom 65536 ?d)) = Some 2000"
    by (simp add: usable_blksize_def request_options_def parse_options_pairs eval_simps)
  have 1: "handle_tftp ascii_runtime ?d ?a ?s0 = (Inr (), ?s1)"
    using handle_tftp_rrq [OF p, of ascii_runtime ?a] u
    by (simp add: started_def sendto_tftp_def set_block_size_def)
  have 2: "handle_tftp ascii_runtime [CHR 0x00, CHR 0x04, CHR 0x00, CHR 0x00] ?a ?s1 = (Inr (), ?s2)"
    using handle_tftp_ack_eval [OF inv(2), of ascii_runtime "CHR 0x00" "CHR 0x00" ?a]
      send_block_cases [OF inv(2), of 0 ?a]
    by (simp add: started_def sendto_tftp_def firmware_range_def)
  have 3: "handle_tftp ascii_runtime [CHR 0x00, CHR 0x04, CHR 0x00, CHR 0x01] ?a ?s2 = (Inr (), ?s3)"
    using handle_tftp_ack_eval [OF inv(3), of ascii_runtime "CHR 0x00" "CHR 0x01" ?a]
      send_block_cases [OF inv(3), of 1 ?a]
    by (simp add: started_def finished_def set_block_size_def DEFAULT_BLOCK_SIZE_def)
  show ?thesis
    using 1 2 3 by (simp add: started_def)
qed

end
